(* ===== verification/Prelude.thy ===== *)
theory Prelude
  imports Complex_Main "HOL-Library.State_Monad" "HOL-Library.Monad_Syntax"
begin

text \<open>
  Shared vocabulary of the development: the named collections that the component
  theories fill, JavaScript's out-of-range array read, and the list lemmas that
  the string splitting of the router and the effect traces of the handlers use.
\<close>

named_theorems io_simps
  "equations that run one effect combinator on a world"
named_theorems js_simps
  "equations that evaluate the JavaScript operations of the model"

section \<open>Reading an array out of range\<close>

text \<open>
  A JavaScript read \<open>xs[i]\<close> past the end yields \<open>undefined\<close>; \<open>nth_opt\<close> returns
  \<open>None\<close> there. HOL's \<open>xs ! i\<close> is unspecified out of range and is never used
  for such reads.
\<close>

definition nth_opt :: "'a list \<Rightarrow> nat \<Rightarrow> 'a option" where
  "nth_opt xs i = (if i < length xs then Some (xs ! i) else None)"

lemma nth_opt_Nil [simp, js_simps]: "nth_opt [] i = None"
  by (simp add: nth_opt_def)

lemma nth_opt_Cons_0 [simp, js_simps]: "nth_opt (x # xs) 0 = Some x"
  by (simp add: nth_opt_def)

lemma nth_opt_Cons_Suc [simp, js_simps]: "nth_opt (x # xs) (Suc i) = nth_opt xs i"
  by (simp add: nth_opt_def)

lemma nth_opt_Cons_numeral [simp, js_simps]:
  "nth_opt (x # xs) (numeral n) = nth_opt xs (pred_numeral n)"
  by (simp add: numeral_eq_Suc)

lemma nth_opt_append_left [simp]:
  "i < length xs \<Longrightarrow> nth_opt (xs @ ys) i = nth_opt xs i"
  by (simp add: nth_opt_def nth_append)

lemma nth_opt_append_right:
  "length xs \<le> i \<Longrightarrow> nth_opt (xs @ ys) i = nth_opt ys (i - length xs)"
  by (auto simp add: nth_opt_def nth_append)

lemma nth_opt_None_iff: "nth_opt xs i = None \<longleftrightarrow> length xs \<le> i"
  by (simp add: nth_opt_def)

lemma nth_opt_Some_iff: "nth_opt xs i = Some x \<longleftrightarrow> i < length xs \<and> xs ! i = x"
  by (auto simp add: nth_opt_def)

end
