(* ===== verification/Js_Values.thy ===== *)
theory Js_Values
  imports Prelude
begin

text \<open>
  The JavaScript semantics the bot's code relies on, stated once so that the
  component theories read like the source: the values a handler manipulates
  (\<open>jsval\<close>), numbers with NaN and the infinities (\<open>jsnum\<close>), the errors a
  promise can reject with (\<open>jserror\<close>), \<open>String.prototype.split\<close> on a
  one-character separator, \<open>ToNumber\<close> (including the string grammar
  StringToNumber of ECMAScript), the relational comparison and subtraction of
  numbers, a property read \<open>v.key\<close>, and the value a JSON document holds after
  \<open>JSON.stringify\<close> followed by \<open>JSON.parse\<close>.

  Abstractions: finite numbers are exact rationals (IEEE-754 rounding, overflow
  to Infinity and negative zero are not modelled); characters are bytes, so the
  white space that StringToNumber trims is the ASCII part of ECMAScript's
  WhiteSpace and LineTerminator sets.
\<close>

section \<open>Values\<close>

datatype jsnum = Fin rat | PosInf | NegInf | NaN

datatype jsval =
    Undefined
  | Null
  | Bool bool
  | Num jsnum
  | Str string
  | Arr "jsval list"
  | Obj "(string \<times> jsval) list"

datatype jserror =
    Error string \<comment> \<open>\<open>new Error(message)\<close>\<close>
  | TypeError string \<comment> \<open>a property read on \<open>undefined\<close> or \<open>null\<close>\<close>
  | SyntaxError \<comment> \<open>\<open>JSON.parse\<close> or \<open>res.json()\<close> on text that is not JSON\<close>
  | ResponseError jsval \<comment> \<open>\<open>Error(JSON.stringify(data))\<close> thrown by \<open>DiscordRequest\<close>\<close>
  | FetchError string \<comment> \<open>\<open>fetch\<close> rejected: no HTTP response at all\<close>
  | FsError string \<comment> \<open>\<open>fs.promises\<close> rejected (missing file, permissions)\<close>
  | ProviderError string \<comment> \<open>a call of the Trackmania data provider rejected\<close>

text \<open>\<open>xs[i]\<close> on an array of JavaScript values: \<open>undefined\<close> past the end.\<close>

definition js_at :: "jsval list \<Rightarrow> nat \<Rightarrow> jsval" where
  "js_at xs i = (case nth_opt xs i of None \<Rightarrow> Undefined | Some v \<Rightarrow> v)"

lemma js_at_Cons_0 [simp, js_simps]: "js_at (x # xs) 0 = x"
  by (simp add: js_at_def)

lemma js_at_Cons_Suc [simp, js_simps]: "js_at (x # xs) (Suc i) = js_at xs i"
  by (simp add: js_at_def)

lemma js_at_Cons_numeral [simp, js_simps]: "js_at (x # xs) (numeral n) = js_at xs (pred_numeral n)"
  by (simp add: js_at_def)

lemma js_at_Nil [simp, js_simps]: "js_at [] i = Undefined"
  by (simp add: js_at_def)

lemma js_at_append_left [simp]: "i < length xs \<Longrightarrow> js_at (xs @ ys) i = js_at xs i"
  by (simp add: js_at_def)

lemma js_at_append_right: "length xs \<le> i \<Longrightarrow> js_at (xs @ ys) i = js_at ys (i - length xs)"
  by (simp add: js_at_def nth_opt_append_right)

section \<open>String.prototype.split and Array.prototype.join with one character\<close>

text \<open>
  \<open>s.split(';')\<close> cuts at every separator and keeps empty pieces: \<open>''''\<close> gives
  \<open>['']\<close>, \<open>'a;;b'\<close> gives \<open>['a', '', 'b']\<close>. It never returns an empty array.
\<close>

fun split_on :: "char \<Rightarrow> string \<Rightarrow> string list" where
  "split_on d [] = [[]]"
| "split_on d (c # cs) =
     (let r = split_on d cs in
      if c = d then [] # r else (c # hd r) # tl r)"

fun join_on :: "char \<Rightarrow> string list \<Rightarrow> string" where
  "join_on d [] = []"
| "join_on d [w] = w"
| "join_on d (w # v # ws) = w @ d # join_on d (v # ws)"

lemma split_on_not_Nil [simp]: "split_on d s \<noteq> []"
  by (induction s) (auto simp: Let_def)

lemma split_on_no_delim: "d \<notin> set s \<Longrightarrow> split_on d s = [s]"
  by (induction s) auto

lemma split_on_append_delim:
  "d \<notin> set w \<Longrightarrow> split_on d (w @ d # s) = w # split_on d s"
proof (induction w)
  case Nil
  then show ?case by simp
next
  case (Cons c w)
  then show ?case by (auto simp add: Let_def)
qed

lemma join_on_Cons_Cons: "join_on d ((c # w) # ws) = c # join_on d (w # ws)"
  by (cases ws) auto

lemma join_on_Nil_Cons: "ws \<noteq> [] \<Longrightarrow> join_on d ([] # ws) = d # join_on d ws"
  by (cases ws) auto

text \<open>Joining the pieces of a split gives the string back, for every string.\<close>

lemma join_split_on [simp]: "join_on d (split_on d s) = s"
proof (induction s)
  case Nil
  then show ?case by simp
next
  case (Cons c cs)
  have ne: "split_on d cs \<noteq> []" by simp
  show ?case
  proof (cases "c = d")
    case True
    with Cons ne show ?thesis by (simp add: join_on_Nil_Cons)
  next
    case False
    from ne obtain w ws where r: "split_on d cs = w # ws"
      by (cases "split_on d cs") auto
    from Cons r False show ?thesis by (simp add: join_on_Cons_Cons)
  qed
qed

text \<open>Splitting a join gives the pieces back when no piece holds the separator.\<close>

lemma split_join_on:
  "ws \<noteq> [] \<Longrightarrow> (\<forall>w \<in> set ws. d \<notin> set w) \<Longrightarrow> split_on d (join_on d ws) = ws"
proof (induction d ws rule: join_on.induct)
  case (1 d)
  then show ?case by simp
next
  case (2 d w)
  then show ?case by (simp add: split_on_no_delim)
next
  case (3 d w v ws)
  then show ?case by (simp add: split_on_append_delim)
qed

section \<open>StringToNumber\<close>

definition js_space :: "char \<Rightarrow> bool" where
  "js_space c \<longleftrightarrow> of_char c \<in> {9, 10, 11, 12, 13, 32 :: nat}"

definition js_trim :: "string \<Rightarrow> string" where
  "js_trim s = rev (dropWhile js_space (rev (dropWhile js_space s)))"

definition hex_digit :: "char \<Rightarrow> nat option" where
  "hex_digit c =
     (let n = (of_char c :: nat) in
      if 48 \<le> n \<and> n \<le> 57 then Some (n - 48)
      else if 97 \<le> n \<and> n \<le> 102 then Some (n - 87)
      else if 65 \<le> n \<and> n \<le> 70 then Some (n - 55)
      else None)"

definition digit_of :: "nat \<Rightarrow> char \<Rightarrow> nat option" where
  "digit_of r c = (case hex_digit c of Some v \<Rightarrow> if v < r then Some v else None | None \<Rightarrow> None)"

fun radix_value :: "nat \<Rightarrow> nat \<Rightarrow> string \<Rightarrow> nat option" where
  "radix_value r acc [] = Some acc"
| "radix_value r acc (c # cs) =
     (case digit_of r c of None \<Rightarrow> None | Some v \<Rightarrow> radix_value r (r * acc + v) cs)"

definition is_digit :: "char \<Rightarrow> bool" where
  "is_digit c \<longleftrightarrow> digit_of 10 c \<noteq> None"

definition digits_value :: "string \<Rightarrow> nat" where
  "digits_value ds = (case radix_value 10 0 ds of Some n \<Rightarrow> n | None \<Rightarrow> 0)"

definition radix_of :: "char \<Rightarrow> nat option" where
  "radix_of x =
     (if x = CHR ''x'' \<or> x = CHR ''X'' then Some 16
      else if x = CHR ''o'' \<or> x = CHR ''O'' then Some 8
      else if x = CHR ''b'' \<or> x = CHR ''B'' then Some 2
      else None)"

text \<open>NonDecimalIntegerLiteral: \<open>0x\<close>, \<open>0o\<close> or \<open>0b\<close> and at least one digit, no sign.\<close>

fun non_decimal_literal :: "string \<Rightarrow> nat option" where
  "non_decimal_literal (z # x # ds) =
     (if z = CHR ''0'' \<and> ds \<noteq> [] then
        (case radix_of x of None \<Rightarrow> None | Some r \<Rightarrow> radix_value r 0 ds)
      else None)"
| "non_decimal_literal _ = None"

definition pow10 :: "int \<Rightarrow> rat" where
  "pow10 e = (if 0 \<le> e then 10 ^ nat e else inverse (10 ^ nat (- e)))"

definition signed_digits :: "string \<Rightarrow> int option" where
  "signed_digits es =
     (case es of
        [] \<Rightarrow> None
      | c # ds \<Rightarrow>
          (let digits = (\<lambda>xs. if xs = [] then None else map_option int (radix_value 10 0 xs)) in
           if c = CHR ''+'' then digits ds
           else if c = CHR ''-'' then map_option uminus (digits ds)
           else digits es))"

definition exponent_part :: "string \<Rightarrow> int option" where
  "exponent_part ex = (case ex of [] \<Rightarrow> Some 0 | _ # es \<Rightarrow> signed_digits es)"

definition fraction_part :: "string \<Rightarrow> string option" where
  "fraction_part after =
     (case after of
        [] \<Rightarrow> Some []
      | c # fp \<Rightarrow> if c = CHR ''.'' \<and> list_all is_digit fp then Some fp else None)"

text \<open>
  StrUnsignedDecimalLiteral without \<open>Infinity\<close>: digits, an optional fraction after
  a point, an optional exponent; at least one digit before or after the point.
\<close>

definition unsigned_decimal :: "string \<Rightarrow> rat option" where
  "unsigned_decimal u =
     (let not_e = (\<lambda>c. c \<noteq> CHR ''e'' \<and> c \<noteq> CHR ''E'');
          mant = takeWhile not_e u;
          ex = dropWhile not_e u;
          ip = takeWhile is_digit mant;
          after = dropWhile is_digit mant
      in case (fraction_part after, exponent_part ex) of
           (Some fp, Some e) \<Rightarrow>
             if ip = [] \<and> fp = [] then None
             else Some ((of_nat (digits_value ip)
                         + of_nat (digits_value fp) / 10 ^ length fp) * pow10 e)
         | _ \<Rightarrow> None)"

definition unsigned_number :: "string \<Rightarrow> jsnum" where
  "unsigned_number u =
     (if u = ''Infinity'' then PosInf
      else case unsigned_decimal u of Some q \<Rightarrow> Fin q | None \<Rightarrow> NaN)"

fun num_neg :: "jsnum \<Rightarrow> jsnum" where
  "num_neg (Fin q) = Fin (- q)"
| "num_neg PosInf = NegInf"
| "num_neg NegInf = PosInf"
| "num_neg NaN = NaN"

definition str_to_number :: "string \<Rightarrow> jsnum" where
  "str_to_number s =
     (case js_trim s of
        [] \<Rightarrow> Fin 0
      | c # u \<Rightarrow>
          (case non_decimal_literal (c # u) of
             Some n \<Rightarrow> Fin (of_nat n)
           | None \<Rightarrow>
               if c = CHR ''+'' then unsigned_number u
               else if c = CHR ''-'' then num_neg (unsigned_number u)
               else unsigned_number (c # u)))"

text \<open>The equations that evaluate StringToNumber on a literal string.\<close>

lemmas str_to_number_unfold [js_simps] =
  str_to_number_def js_trim_def js_space_def unsigned_number_def unsigned_decimal_def
  is_digit_def digit_of_def hex_digit_def fraction_part_def exponent_part_def
  digits_value_def signed_digits_def pow10_def radix_of_def

section \<open>ToNumber\<close>

text \<open>
  An array converts through its string form, the elements joined by commas: the
  empty array is \<open>0\<close>, a one-element array converts as its element's string
  form does, and two or more elements put a comma in the string, which is
  \<open>NaN\<close>. An object's string form is \<open>[object Object]\<close>, also \<open>NaN\<close>.
\<close>

fun to_number :: "jsval \<Rightarrow> jsnum" where
  "to_number Undefined = NaN"
| "to_number Null = Fin 0"
| "to_number (Bool b) = Fin (if b then 1 else 0)"
| "to_number (Num n) = n"
| "to_number (Str s) = str_to_number s"
| "to_number (Arr []) = Fin 0"
| "to_number (Arr [Undefined]) = Fin 0"
| "to_number (Arr [Null]) = Fin 0"
| "to_number (Arr [Bool b]) = NaN"
| "to_number (Arr [Num n]) = n"
| "to_number (Arr [Str s]) = str_to_number s"
| "to_number (Arr [Arr xs]) = to_number (Arr xs)"
| "to_number (Arr [Obj kvs]) = NaN"
| "to_number (Arr (v # w # vs)) = NaN"
| "to_number (Obj kvs) = NaN"

section \<open>Relational comparison and subtraction of numbers\<close>

fun num_less :: "jsnum \<Rightarrow> jsnum \<Rightarrow> bool" where
  "num_less NaN y = False"
| "num_less x NaN = False"
| "num_less (Fin a) (Fin b) = (a < b)"
| "num_less NegInf y = (y \<noteq> NegInf)"
| "num_less x PosInf = (x \<noteq> PosInf)"
| "num_less PosInf y = False"
| "num_less x NegInf = False"

fun num_sub :: "jsnum \<Rightarrow> jsnum \<Rightarrow> jsnum" where
  "num_sub (Fin a) (Fin b) = Fin (a - b)"
| "num_sub NaN y = NaN"
| "num_sub x NaN = NaN"
| "num_sub PosInf PosInf = NaN"
| "num_sub NegInf NegInf = NaN"
| "num_sub PosInf y = PosInf"
| "num_sub NegInf y = NegInf"
| "num_sub (Fin a) PosInf = NegInf"
| "num_sub (Fin a) NegInf = PosInf"

lemma num_less_NaN_right [simp]: "\<not> num_less x NaN"
  by (cases x) auto

section \<open>ToBoolean\<close>

text \<open>
  The falsy values: \<open>undefined\<close>, \<open>null\<close>, \<open>false\<close>, \<open>0\<close>, \<open>NaN\<close> and the
  empty string; every array and object is truthy.
\<close>

fun js_truthy :: "jsval \<Rightarrow> bool" where
  "js_truthy Undefined = False"
| "js_truthy Null = False"
| "js_truthy (Bool b) = b"
| "js_truthy (Num (Fin r)) = (r \<noteq> 0)"
| "js_truthy (Num NaN) = False"
| "js_truthy (Num PosInf) = True"
| "js_truthy (Num NegInf) = True"
| "js_truthy (Str s) = (s \<noteq> [])"
| "js_truthy (Arr vs) = True"
| "js_truthy (Obj kvs) = True"

text \<open>\<open>String(v)\<close> of a falsy value other than \<open>undefined\<close> and \<open>null\<close>.\<close>

fun falsy_string :: "jsval \<Rightarrow> string" where
  "falsy_string (Bool b) = (if b then ''true'' else ''false'')"
| "falsy_string (Num NaN) = ''NaN''"
| "falsy_string (Num n) = ''0''"
| "falsy_string (Str s) = s"
| "falsy_string v = []"

section \<open>Property reads\<close>

text \<open>
  \<open>v.key\<close> for a key that is not an array index: a \<open>TypeError\<close> on \<open>undefined\<close>
  and \<open>null\<close>, the member of an object (\<open>undefined\<close> when it is missing), and
  \<open>undefined\<close> on every other value (the \<open>length\<close> of strings and arrays apart).
\<close>

fun get_property :: "jsval \<Rightarrow> string \<Rightarrow> jserror + jsval" where
  "get_property Undefined k =
     Inl (TypeError (''Cannot read properties of undefined (reading '' @ k @ '')''))"
| "get_property Null k =
     Inl (TypeError (''Cannot read properties of null (reading '' @ k @ '')''))"
| "get_property (Obj kvs) k = Inr (case map_of kvs k of None \<Rightarrow> Undefined | Some v \<Rightarrow> v)"
| "get_property (Arr vs) k =
     Inr (if k = ''length'' then Num (Fin (of_nat (length vs))) else Undefined)"
| "get_property (Str s) k =
     Inr (if k = ''length'' then Num (Fin (of_nat (length s))) else Undefined)"
| "get_property (Bool b) k = Inr Undefined"
| "get_property (Num n) k = Inr Undefined"

lemma get_property_Inl_iff: "(\<exists>e. get_property v k = Inl e) \<longleftrightarrow> v = Undefined \<or> v = Null"
  by (cases v) auto

section \<open>JSON.stringify followed by JSON.parse\<close>

text \<open>
  \<open>json_value v\<close> is what \<open>JSON.parse(JSON.stringify(v))\<close> returns: \<open>None\<close> when
  \<open>JSON.stringify\<close> returns \<open>undefined\<close> (for \<open>undefined\<close> itself); \<open>NaN\<close> and the
  infinities become \<open>null\<close>; an \<open>undefined\<close> array element becomes \<open>null\<close>; an
  object member whose value is \<open>undefined\<close> is dropped. Objects are taken to have
  distinct keys, as every JavaScript object has.
\<close>

fun json_value :: "jsval \<Rightarrow> jsval option" where
  "json_value Undefined = None"
| "json_value Null = Some Null"
| "json_value (Bool b) = Some (Bool b)"
| "json_value (Num (Fin q)) = Some (Num (Fin q))"
| "json_value (Num PosInf) = Some Null"
| "json_value (Num NegInf) = Some Null"
| "json_value (Num NaN) = Some Null"
| "json_value (Str s) = Some (Str s)"
| "json_value (Arr vs) =
     Some (Arr (map (\<lambda>v. case json_value v of None \<Rightarrow> Null | Some w \<Rightarrow> w) vs))"
| "json_value (Obj kvs) =
     Some (Obj (concat (map (\<lambda>kv. case json_value (snd kv) of
                                      None \<Rightarrow> []
                                    | Some w \<Rightarrow> [(fst kv, w)]) kvs)))"

end
