(* ===== verification/World.thy ===== *)
theory World
  imports Js_Values
begin

text \<open>
  The world an async handler of the bot runs in, and the combinators that give
  JavaScript's \<open>async\<close>/\<open>await\<close> a meaning over it.

  \<^item> \<open>world\<close>: the files on disk (only \<open>totd.json\<close> is used), the clock
    \<open>Date.now()\<close>, and the trace of everything the process did to the outside,
    in the order it was issued: replies to the HTTP request (\<open>res.send\<close>),
    Discord REST calls, calls of the Trackmania data provider, file reads and
    writes, and promise rejections that nothing handles.
  \<^item> \<open>env\<close>: the answers of the collaborators, as functions of the call: the
    data provider (\<open>trackmania.js\<close>, not among the sources, so only its call
    shapes are modelled), Discord's HTTP API, the application id and the local
    time zone. Every theorem holds for every \<open>env\<close>.
  \<^item> \<open>'a io\<close>: a computation of \<open>HOL-Library.State_Monad\<close> whose value is
    \<open>Inl e\<close> when the promise rejects with \<open>e\<close> and \<open>Inr x\<close> when it resolves to
    \<open>x\<close>. \<open>await\<close> propagates a rejection, \<open>catch\<close> is \<open>.catch\<close>, and a promise
    that is created but never awaited is \<open>start_call\<close>, whose rejection, if
    nothing awaits it, \<open>forsake\<close> records as an unhandled rejection.

  The handler of one request runs without interruption between its awaits in
  this model: the interleaving of two handlers over the shared file is modelled
  separately (theory \<open>Cache\<close>).
\<close>

section \<open>Outbound calls and replies\<close>

datatype http_method = GET | POST | PATCH | PUT

text \<open>The response types of \<open>discord-interactions\<close> that \<open>res.send\<close> uses.\<close>

datatype response =
    Pong
  | ChannelMessage string bool \<comment> \<open>content, and whether it is ephemeral\<close>
  | DeferredChannelMessage
  | DeferredUpdateMessage

text \<open>
  Bodies of Discord REST calls. The two embeds the code builds itself are kept
  abstract except for what a later interaction depends on: the \<open>custom_id\<close> of
  their button, and the error an error embed reports.
\<close>

datatype body =
    NoBody
  | Payload jsval
  | RawText string \<comment> \<open>a body sent as \<open>String(body)\<close>, not serialised to JSON\<close>
  | DemoEmbed string \<comment> \<open>the \<open>test\<close> command's embed and its button's \<open>custom_id\<close>\<close>
  | ErrorEmbed jserror string \<comment> \<open>reason \<open>${err}\<close> and the Back button's \<open>custom_id\<close>\<close>

datatype totd_date = Today | OnDate "int option" \<comment> \<open>a \<open>Date\<close>; \<open>None\<close>: Invalid Date\<close>

record track_info =
  author :: jsval
  groupUid :: jsval
  mapUid :: jsval

text \<open>The calls into \<open>trackmania.js\<close>, with the arguments the code passes.\<close>

datatype api_call =
    TrackOfTheDay totd_date
  | EmbedTrackInfo jsval
  | GetTrackInfo string jsval jsval
  | Leaderboard track_info jsval bool jsval
  | CupOfTheDay

datatype effect =
    Respond response
  | Http http_method string body
  | Api api_call
  | ReadFile string
  | WriteFile string jsval
  | Unhandled jserror

datatype http_reply = NetworkFailure string | Reply nat "jsval option"

datatype file_content = JsonText jsval | NotJson

record env =
  provider :: "api_call \<Rightarrow> jserror + jsval"
  discord :: "http_method \<Rightarrow> string \<Rightarrow> body \<Rightarrow> http_reply"
  app_id :: string
  utc_offset :: int \<comment> \<open>local time minus UTC, in milliseconds\<close>

record world =
  files :: "string \<rightharpoonup> file_content"
  now_ms :: int
  trace :: "effect list"

type_synonym 'a io = "(world, jserror + 'a) state"

section \<open>Combinators\<close>

definition ok :: "'a \<Rightarrow> 'a io" where
  "ok x = State_Monad.return (Inr x)"

definition throw :: "jserror \<Rightarrow> 'a io" where
  "throw e = State_Monad.return (Inl e)"

definition await :: "'a io \<Rightarrow> ('a \<Rightarrow> 'b io) \<Rightarrow> 'b io" where
  "await m f = State_Monad.bind m
     (\<lambda>r. case r of Inl e \<Rightarrow> State_Monad.return (Inl e) | Inr x \<Rightarrow> f x)"

definition catch :: "'a io \<Rightarrow> (jserror \<Rightarrow> 'a io) \<Rightarrow> 'a io" where
  "catch m h = State_Monad.bind m
     (\<lambda>r. case r of Inl e \<Rightarrow> h e | Inr x \<Rightarrow> State_Monad.return (Inr x))"

definition emit :: "effect \<Rightarrow> unit io" where
  "emit ev = State (\<lambda>w. (Inr (), w\<lparr>trace := trace w @ [ev]\<rparr>))"

definition settle :: "jserror + 'a \<Rightarrow> 'a io" where
  "settle r = State_Monad.return r"

definition forsake :: "jserror + 'a \<Rightarrow> unit io" where
  "forsake r = (case r of Inl e \<Rightarrow> emit (Unhandled e) | Inr _ \<Rightarrow> ok ())"

definition fire_and_forget :: "unit io \<Rightarrow> unit io" where
  "fire_and_forget m = catch m (\<lambda>e. emit (Unhandled e))"

definition clock :: "int io" where
  "clock = State (\<lambda>w. (Inr (now_ms w), w))"

definition respond :: "response \<Rightarrow> unit io" where
  "respond r = emit (Respond r)"

text \<open>
  A call of the data provider creates its promise at once: the call is issued
  when the expression is evaluated, and the outcome is settled but not yet
  awaited.
\<close>

definition start_call :: "env \<Rightarrow> api_call \<Rightarrow> (jserror + jsval) io" where
  "start_call E c = await (emit (Api c)) (\<lambda>_. ok (provider E c))"

definition call :: "env \<Rightarrow> api_call \<Rightarrow> jsval io" where
  "call E c = await (start_call E c) settle"

section \<open>Running the combinators\<close>

lemma run_ok [simp, io_simps]: "run_state (ok x) w = (Inr x, w)"
  by (simp add: ok_def)

lemma run_throw [simp, io_simps]: "run_state (throw e) w = (Inl e, w)"
  by (simp add: throw_def)

lemma run_settle [simp, io_simps]: "run_state (settle r) w = (r, w)"
  by (simp add: settle_def)

lemma run_await [simp, io_simps]:
  "run_state (await m f) w =
     (case run_state m w of (Inl e, w') \<Rightarrow> (Inl e, w') | (Inr x, w') \<Rightarrow> run_state (f x) w')"
  by (simp add: await_def split: prod.split sum.split)

lemma run_catch [simp, io_simps]:
  "run_state (catch m h) w =
     (case run_state m w of (Inl e, w') \<Rightarrow> run_state (h e) w' | (Inr x, w') \<Rightarrow> (Inr x, w'))"
  by (simp add: catch_def split: prod.split sum.split)

lemma run_emit [simp, io_simps]:
  "run_state (emit ev) w = (Inr (), w\<lparr>trace := trace w @ [ev]\<rparr>)"
  by (simp add: emit_def)

lemma run_clock [simp, io_simps]: "run_state clock w = (Inr (now_ms w), w)"
  by (simp add: clock_def)

lemma run_respond [simp, io_simps]:
  "run_state (respond r) w = (Inr (), w\<lparr>trace := trace w @ [Respond r]\<rparr>)"
  by (simp add: respond_def)

lemma run_forsake [simp, io_simps]:
  "run_state (forsake r) w =
     (Inr (), w\<lparr>trace := trace w @ (case r of Inl e \<Rightarrow> [Unhandled e] | Inr _ \<Rightarrow> [])\<rparr>)"
  by (simp add: forsake_def split: sum.split)

lemma run_start_call [simp, io_simps]:
  "run_state (start_call E c) w = (Inr (provider E c), w\<lparr>trace := trace w @ [Api c]\<rparr>)"
  by (simp add: start_call_def)

lemma run_call [simp, io_simps]:
  "run_state (call E c) w = (provider E c, w\<lparr>trace := trace w @ [Api c]\<rparr>)"
  by (simp add: call_def)

lemma run_fire_and_forget [simp, io_simps]:
  "run_state (fire_and_forget m) w =
     (case run_state m w of
        (Inl e, w') \<Rightarrow> (Inr (), w'\<lparr>trace := trace w' @ [Unhandled e]\<rparr>)
      | (Inr x, w') \<Rightarrow> (Inr x, w'))"
  by (simp add: fire_and_forget_def split: prod.split sum.split)

lemma await_ok [simp]: "await (ok x) f = f x"
  by (rule state_ext) simp

lemma catch_ok [simp]: "catch (ok x) h = ok x"
  by (rule state_ext) simp

text \<open>A run that appends an effect leaves a world different from the one it started in.\<close>

lemma trace_extended_eq_iff [simp]:
  "(w\<lparr>trace := trace w @ xs\<rparr> = w) = (xs = [])"
  by (cases w) simp

section \<open>Effect discipline\<close>

text \<open>
  \<open>only_emits P m\<close>: from every world, \<open>m\<close> only appends effects satisfying
  \<open>P\<close> to the trace. The rules below compose it along the combinators; each
  component theory adds the rule for its own operations to \<open>emits_intros\<close>, so
  that a property of a whole handler ("no second response", "no unhandled
  rejection") is proved by \<open>intro\<close> over the handler's structure.
\<close>

definition only_emits :: "(effect \<Rightarrow> bool) \<Rightarrow> 'a io \<Rightarrow> bool" where
  "only_emits P m \<longleftrightarrow>
     (\<forall>w. \<exists>xs. trace (snd (run_state m w)) = trace w @ xs \<and> list_all P xs)"

named_theorems emits_intros "rules composing only_emits"

lemma only_emitsI:
  "(\<And>w. \<exists>xs. trace (snd (run_state m w)) = trace w @ xs \<and> list_all P xs) \<Longrightarrow> only_emits P m"
  by (simp add: only_emits_def)

lemma only_emitsD:
  "only_emits P m \<Longrightarrow> run_state m w = (r, w') \<Longrightarrow> \<exists>xs. trace w' = trace w @ xs \<and> list_all P xs"
  by (metis only_emits_def snd_conv)

lemma only_emits_ok [emits_intros]: "only_emits P (ok x)"
  by (simp add: only_emits_def)

lemma only_emits_throw [emits_intros]: "only_emits P (throw e)"
  by (simp add: only_emits_def)

lemma only_emits_settle [emits_intros]: "only_emits P (settle r)"
  by (simp add: only_emits_def)

lemma only_emits_clock [emits_intros]: "only_emits P clock"
  by (simp add: only_emits_def)

lemma only_emits_emit [emits_intros]: "P ev \<Longrightarrow> only_emits P (emit ev)"
  by (simp add: only_emits_def)

lemma only_emits_respond [emits_intros]: "P (Respond r) \<Longrightarrow> only_emits P (respond r)"
  by (simp add: only_emits_def)

lemma only_emits_start_call [emits_intros]: "P (Api c) \<Longrightarrow> only_emits P (start_call E c)"
  by (simp add: only_emits_def)

lemma only_emits_call [emits_intros]: "P (Api c) \<Longrightarrow> only_emits P (call E c)"
  by (simp add: only_emits_def)

lemma only_emits_forsake [emits_intros]:
  "(\<And>e. P (Unhandled e)) \<Longrightarrow> only_emits P (forsake r)"
  by (simp add: only_emits_def split: sum.split)

lemma only_emits_await [emits_intros]:
  assumes "only_emits P m" and "\<And>x. only_emits P (f x)"
  shows "only_emits P (await m f)"
proof (rule only_emitsI)
  fix w
  obtain r w1 where m: "run_state m w = (r, w1)" by fastforce
  from only_emitsD [OF assms(1) m] obtain xs where xs: "trace w1 = trace w @ xs" "list_all P xs"
    by blast
  show "\<exists>ys. trace (snd (run_state (await m f) w)) = trace w @ ys \<and> list_all P ys"
  proof (cases r)
    case (Inl e)
    with m xs show ?thesis by auto
  next
    case (Inr x)
    obtain r2 w2 where f: "run_state (f x) w1 = (r2, w2)" by fastforce
    from only_emitsD [OF assms(2) f] obtain zs where "trace w2 = trace w1 @ zs" "list_all P zs"
      by blast
    with m xs f Inr show ?thesis by auto
  qed
qed

lemma only_emits_catch [emits_intros]:
  assumes "only_emits P m" and "\<And>e. only_emits P (h e)"
  shows "only_emits P (catch m h)"
proof (rule only_emitsI)
  fix w
  obtain r w1 where m: "run_state m w = (r, w1)" by fastforce
  from only_emitsD [OF assms(1) m] obtain xs where xs: "trace w1 = trace w @ xs" "list_all P xs"
    by blast
  show "\<exists>ys. trace (snd (run_state (catch m h) w)) = trace w @ ys \<and> list_all P ys"
  proof (cases r)
    case (Inr x)
    with m xs show ?thesis by auto
  next
    case (Inl e)
    obtain r2 w2 where h: "run_state (h e) w1 = (r2, w2)" by fastforce
    from only_emitsD [OF assms(2) h] obtain zs where "trace w2 = trace w1 @ zs" "list_all P zs"
      by blast
    with m xs h Inl show ?thesis by auto
  qed
qed

lemma only_emits_fire_and_forget [emits_intros]:
  "only_emits P m \<Longrightarrow> (\<And>e. P (Unhandled e)) \<Longrightarrow> only_emits P (fire_and_forget m)"
  unfolding fire_and_forget_def by (intro only_emits_catch only_emits_emit)

lemma only_emits_if [emits_intros]:
  "only_emits P a \<Longrightarrow> only_emits P b \<Longrightarrow> only_emits P (if c then a else b)"
  by simp

lemma only_emits_let [emits_intros]:
  "only_emits P (f x) \<Longrightarrow> only_emits P (Let x f)"
  by simp

end
