(* ===== verification/Discord.thy ===== *)
theory Discord
  imports World
begin

text \<open>
  The Discord REST client of \<open>src/utils.js\<close> (\<open>DiscordRequest\<close>,
  \<open>InstallGlobalCommands\<close>) and the command registry of \<open>src/commands.js\<close>.
  \<open>DiscordRequest\<close> issues one HTTP call and rejects exactly when no response
  arrives or the response status is outside 200..299; \<open>InstallGlobalCommands\<close>
  never rejects.
\<close>

section \<open>DiscordRequest (utils.js)\<close>

definition discord_api_base :: string where
  "discord_api_base = ''https://discord.com/api/v10/''"

text \<open>
  \<open>res.ok\<close> is a status in 200..299. On any other status the body is read with
  \<open>res.json()\<close> (a \<open>SyntaxError\<close> when it is not JSON) and thrown as
  \<open>Error(JSON.stringify(data))\<close>.
\<close>

definition DiscordRequest :: "env \<Rightarrow> string \<Rightarrow> http_method \<Rightarrow> body \<Rightarrow> unit io" where
  "DiscordRequest E endpoint method b =
     (let url = discord_api_base @ endpoint in
      await (emit (Http method url b)) (\<lambda>_.
        case discord E method url b of
          NetworkFailure msg \<Rightarrow> throw (FetchError msg)
        | Reply status data \<Rightarrow>
            if 200 \<le> status \<and> status \<le> 299 then ok ()
            else (case data of
                    None \<Rightarrow> throw SyntaxError
                  | Some d \<Rightarrow> throw (ResponseError d))))"

definition http_ok :: "http_reply \<Rightarrow> bool" where
  "http_ok r = (case r of NetworkFailure _ \<Rightarrow> False | Reply status _ \<Rightarrow> 200 \<le> status \<and> status \<le> 299)"

text \<open>One run of \<open>DiscordRequest\<close>: one HTTP effect, no other change to the world.\<close>

lemma run_DiscordRequest [io_simps]:
  "run_state (DiscordRequest E ep m b) w =
     (if http_ok (discord E m (discord_api_base @ ep) b) then Inr ()
      else Inl (case discord E m (discord_api_base @ ep) b of
                  NetworkFailure msg \<Rightarrow> FetchError msg
                | Reply _ None \<Rightarrow> SyntaxError
                | Reply _ (Some d) \<Rightarrow> ResponseError d),
      w\<lparr>trace := trace w @ [Http m (discord_api_base @ ep) b]\<rparr>)"
  by (simp add: DiscordRequest_def http_ok_def split: http_reply.split option.split)

text \<open>The error a failed request rejects with.\<close>

definition reply_error :: "http_reply \<Rightarrow> jserror" where
  "reply_error r = (case r of NetworkFailure msg \<Rightarrow> FetchError msg
                            | Reply _ None \<Rightarrow> SyntaxError | Reply _ (Some d) \<Rightarrow> ResponseError d)"

lemma only_emits_DiscordRequest [emits_intros]:
  "P (Http m (discord_api_base @ ep) b) \<Longrightarrow> only_emits P (DiscordRequest E ep m b)"
  by (simp add: only_emits_def run_DiscordRequest)

section \<open>The command registry (commands.js) and InstallGlobalCommands\<close>

record command =
  name :: string
  description :: string
  type :: int

definition command_json :: "command \<Rightarrow> jsval" where
  "command_json c =
     Obj [(''name'', Str (name c)), (''description'', Str (description c)),
          (''type'', Num (Fin (of_int (type c))))]"

definition TEST_COMMAND :: command where
  "TEST_COMMAND = \<lparr>name = ''test'', description = ''basic command'', type = 1\<rparr>"

definition LEADERBOARD_COMMAND :: command where
  "LEADERBOARD_COMMAND = \<lparr>name = ''leaderboard'', description = ''leaderboard'', type = 1\<rparr>"

definition CUP_OF_THE_DAY_COMMAND :: command where
  "CUP_OF_THE_DAY_COMMAND = \<lparr>name = ''cotd'', description = ''cup of the day'', type = 1\<rparr>"

definition ALL_COMMANDS :: "command list" where
  "ALL_COMMANDS = [TEST_COMMAND, LEADERBOARD_COMMAND, CUP_OF_THE_DAY_COMMAND]"

definition InstallGlobalCommands :: "env \<Rightarrow> string \<Rightarrow> command list \<Rightarrow> unit io" where
  "InstallGlobalCommands E appId commands =
     (let endpoint = ''applications/'' @ appId @ ''/commands'' in
      catch (DiscordRequest E endpoint PUT (Payload (Arr (map command_json commands))))
            (\<lambda>err. ok ()))"

text \<open>The module body of commands.js: install every command under the app's id.\<close>

definition install_commands :: "env \<Rightarrow> unit io" where
  "install_commands E = InstallGlobalCommands E (app_id E) ALL_COMMANDS"

lemma registered_command_names:
  "map name ALL_COMMANDS = [''test'', ''leaderboard'', ''cotd'']"
  by (simp add: ALL_COMMANDS_def TEST_COMMAND_def LEADERBOARD_COMMAND_def
      CUP_OF_THE_DAY_COMMAND_def)

section \<open>Properties\<close>

text \<open>
  C13. \<open>DiscordRequest\<close> issues exactly one HTTP request to the Discord API base
  joined with the endpoint, and resolves exactly when a response arrives with a
  status in 200..299 (\<open>res.ok\<close>); otherwise it rejects.
\<close>

theorem DiscordRequest_resolves_iff_ok:
  "snd (run_state (DiscordRequest E endpoint m b) w) =
     w\<lparr>trace := trace w @ [Http m (discord_api_base @ endpoint) b]\<rparr>
   \<and> (fst (run_state (DiscordRequest E endpoint m b) w) = Inr ()
        \<longleftrightarrow> http_ok (discord E m (discord_api_base @ endpoint) b))"
  unfolding DiscordRequest_def http_ok_def
  by (simp add: Let_def split: http_reply.split option.split)

theorem DiscordRequest_resolves_iff_ok_witness:
  "snd (run_state (DiscordRequest \<lparr>provider = (\<lambda>c. Inr Null),
          discord = (\<lambda>m u b. Reply 404 (Some (Str ''Unknown Message''))), app_id = ''A'',
          utc_offset = 0\<rparr> ''channels/C/messages/M'' PATCH NoBody)
          \<lparr>files = Map.empty, now_ms = 0, trace = []\<rparr>) =
     \<lparr>files = Map.empty, now_ms = 0, trace = [Http PATCH (discord_api_base @ ''channels/C/messages/M'') NoBody]\<rparr>
   \<and> (fst (run_state (DiscordRequest \<lparr>provider = (\<lambda>c. Inr Null),
          discord = (\<lambda>m u b. Reply 404 (Some (Str ''Unknown Message''))), app_id = ''A'',
          utc_offset = 0\<rparr> ''channels/C/messages/M'' PATCH NoBody)
          \<lparr>files = Map.empty, now_ms = 0, trace = []\<rparr>) = Inr () \<longleftrightarrow> False)"
  using DiscordRequest_resolves_iff_ok [where E = "\<lparr>provider = (\<lambda>c. Inr Null),
          discord = (\<lambda>m u b. Reply 404 (Some (Str ''Unknown Message''))), app_id = ''A'',
          utc_offset = 0\<rparr>" and endpoint = "''channels/C/messages/M''" and m = PATCH and b = NoBody
          and w = "\<lparr>files = Map.empty, now_ms = 0, trace = []\<rparr>"]
  by (simp add: http_ok_def)

text \<open>
  C29. Installing the commands never rejects: whatever Discord answers,
  \<open>commands.js\<close> issues one PUT to \<open>applications/<app id>/commands\<close> whose body is
  the three registered commands in order, and the failure, if any, is only logged.
\<close>

theorem install_commands_never_rejects:
  "run_state (install_commands E) w =
     (Inr (), w\<lparr>trace := trace w @
        [Http PUT (''https://discord.com/api/v10/applications/'' @ app_id E @ ''/commands'')
           (Payload (Arr [command_json TEST_COMMAND, command_json LEADERBOARD_COMMAND,
                          command_json CUP_OF_THE_DAY_COMMAND]))]\<rparr>)"
  by (simp add: install_commands_def InstallGlobalCommands_def ALL_COMMANDS_def run_DiscordRequest
      discord_api_base_def)

end
