(* ===== verification/Error_Responder.thy ===== *)
theory Error_Responder
  imports Discord
begin

text \<open>
  \<open>embeddedErrorMessage\<close> (\<open>src/app.js\<close>): the uniform failure report. It PATCHes
  one error embed, carrying the error and a Back button whose \<open>custom_id\<close> is
  \<open>back\<close>, to the endpoint the failed response was meant for, and swallows a
  failure of that PATCH, so that it never rejects.
\<close>

definition back_button_id :: string where
  "back_button_id = ''back''"

definition embeddedErrorMessage :: "env \<Rightarrow> string \<Rightarrow> jserror \<Rightarrow> unit io" where
  "embeddedErrorMessage E endpoint err =
     catch (DiscordRequest E endpoint PATCH (ErrorEmbed err back_button_id))
           (\<lambda>error. ok ())"

lemma run_embeddedErrorMessage [simp, io_simps]:
  "run_state (embeddedErrorMessage E ep err) w =
     (Inr (), w\<lparr>trace := trace w @ [Http PATCH (discord_api_base @ ep) (ErrorEmbed err back_button_id)]\<rparr>)"
  by (simp add: embeddedErrorMessage_def run_DiscordRequest)

text \<open>
  \<open>report_error\<close> is the callback the handlers pass to \<open>.catch\<close> where the
  caught value is then used: the report, after which the awaited value is
  \<open>undefined\<close>.
\<close>

definition report_error :: "env \<Rightarrow> string \<Rightarrow> jserror \<Rightarrow> jsval io" where
  "report_error E endpoint err = await (embeddedErrorMessage E endpoint err) (\<lambda>_. ok Undefined)"

lemma run_report_error [simp, io_simps]:
  "run_state (report_error E ep err) w =
     (Inr Undefined, w\<lparr>trace := trace w @ [Http PATCH (discord_api_base @ ep) (ErrorEmbed err back_button_id)]\<rparr>)"
  by (simp add: report_error_def)

lemma only_emits_embeddedErrorMessage [emits_intros]:
  "P (Http PATCH (discord_api_base @ ep) (ErrorEmbed err back_button_id)) \<Longrightarrow>
   only_emits P (embeddedErrorMessage E ep err)"
  by (simp add: only_emits_def)

lemma only_emits_report_error [emits_intros]:
  "P (Http PATCH (discord_api_base @ ep) (ErrorEmbed err back_button_id)) \<Longrightarrow>
   only_emits P (report_error E ep err)"
  by (simp add: only_emits_def)

section \<open>Properties\<close>

text \<open>
  C12. The error responder never rejects: whatever Discord answers (a 2xx status,
  an error status, no response at all), \<open>embeddedErrorMessage\<close> resolves after
  issuing exactly one PATCH of the error embed, with its Back button, to the
  endpoint it is given.
\<close>

theorem embeddedErrorMessage_never_rejects:
  "run_state (embeddedErrorMessage E endpoint err) w =
     (Inr (), w\<lparr>trace := trace w @
        [Http PATCH (discord_api_base @ endpoint) (ErrorEmbed err back_button_id)]\<rparr>)"
  unfolding embeddedErrorMessage_def DiscordRequest_def
  by (simp add: Let_def split: http_reply.split option.split)

theorem embeddedErrorMessage_never_rejects_witness:
  "run_state (embeddedErrorMessage \<lparr>provider = (\<lambda>c. Inr Null),
        discord = (\<lambda>m u b. NetworkFailure ''ECONNRESET''), app_id = ''A'', utc_offset = 0\<rparr>
        ''channels/C/messages/M'' (ProviderError ''down''))
      \<lparr>files = Map.empty, now_ms = 0, trace = []\<rparr> =
     (Inr (), \<lparr>files = Map.empty, now_ms = 0, trace =
        [Http PATCH (discord_api_base @ ''channels/C/messages/M'')
           (ErrorEmbed (ProviderError ''down'') back_button_id)]\<rparr>)"
  using embeddedErrorMessage_never_rejects by simp

end
