(* ===== verification/Custom_Id.thy ===== *)
theory Custom_Id
  imports Js_Values
begin

text \<open>
  The state a message component carries in its \<open>custom_id\<close>. The router
  (\<open>src/app.js\<close>, the \<open>MESSAGE_COMPONENT\<close> branch) splits the identifier at
  \<open>;\<close> into \<open>args\<close> and dispatches on \<open>args[0]\<close>: \<open>test\<close>, \<open>cotd\<close>, any token
  starting with \<open>lb\<close> (whose second \<open>_\<close>-separated piece selects the first,
  last or a chosen page), \<open>track\<close>, and nothing for any other token.
  \<open>classify_component\<close> is that chain of tests; \<open>decode_custom_id\<close> pairs the
  action with the remaining fields.

  The identifiers are produced where the buttons are built, in
  \<open>trackmania.js\<close>, which is not among the sources: \<open>encode_custom_id\<close> is the
  encoder the specification describes (tag and fields joined by \<open>;\<close>), and the
  round trip shows that the router recovers every action and field list it
  produces.
\<close>

section \<open>Actions\<close>

datatype lb_kind = LbFirst | LbLast | LbPage | LbOther

datatype action =
    ActTest
  | ActCotd
  | ActLeaderboard lb_kind
  | ActTrack
  | ActUnrecognized

section \<open>Decoding, as the router does it\<close>

definition custom_id_args :: "string \<Rightarrow> string list" where
  "custom_id_args componentId = split_on CHR '';'' componentId"

text \<open>\<open>lbargs = args[0].split('_')\<close> and the tests on \<open>lbargs[1]\<close>.\<close>

definition lb_kind_of :: "string \<Rightarrow> lb_kind" where
  "lb_kind_of arg0 =
     (case nth_opt (split_on CHR ''_'' arg0) 1 of
        Some s \<Rightarrow>
          if s = ''f'' then LbFirst
          else if s = ''l'' then LbLast
          else if s = ''p'' then LbPage
          else LbOther
      | None \<Rightarrow> LbOther)"

definition classify_component :: "string list \<Rightarrow> action" where
  "classify_component args =
     (case args of
        [] \<Rightarrow> ActUnrecognized
      | arg0 # _ \<Rightarrow>
          if arg0 = ''test'' then ActTest
          else if arg0 = ''cotd'' then ActCotd
          else if take 2 arg0 = ''lb'' then ActLeaderboard (lb_kind_of arg0)
          else if arg0 = ''track'' then ActTrack
          else ActUnrecognized)"

definition decode_custom_id :: "string \<Rightarrow> action \<times> string list" where
  "decode_custom_id componentId =
     (let args = custom_id_args componentId in (classify_component args, tl args))"

section \<open>Encoding, as the specification describes it\<close>

fun action_tag :: "action \<Rightarrow> string" where
  "action_tag ActTest = ''test''"
| "action_tag ActCotd = ''cotd''"
| "action_tag (ActLeaderboard LbFirst) = ''lb_f''"
| "action_tag (ActLeaderboard LbLast) = ''lb_l''"
| "action_tag (ActLeaderboard LbPage) = ''lb_p''"
| "action_tag (ActLeaderboard LbOther) = ''lb''"
| "action_tag ActTrack = ''track''"
| "action_tag ActUnrecognized = ''''"

definition encode_custom_id :: "action \<Rightarrow> string list \<Rightarrow> string" where
  "encode_custom_id a fields = join_on CHR '';'' (action_tag a # fields)"

section \<open>Lemmas\<close>

lemma custom_id_args_not_Nil [simp]: "custom_id_args c \<noteq> []"
  by (simp add: custom_id_args_def)

lemma hd_split_on: "hd (split_on d s) = takeWhile (\<lambda>c. c \<noteq> d) s"
  by (induction s) (auto simp: Let_def)

lemma action_tag_no_semicolon [simp]: "CHR '';'' \<notin> set (action_tag a)"
  by (cases a rule: action_tag.cases) auto

lemma classify_action_tag [simp]: "classify_component (action_tag a # fs) = a"
  by (cases a rule: action_tag.cases)
     (simp_all add: classify_component_def lb_kind_of_def)

text \<open>The leading token alone decides the action.\<close>

lemma classify_component_lead:
  "classify_component (custom_id_args c) =
     classify_component [takeWhile (\<lambda>ch. ch \<noteq> CHR '';'') c]"
proof -
  obtain a rest where "custom_id_args c = a # rest"
    by (cases "custom_id_args c") auto
  moreover have "a = takeWhile (\<lambda>ch. ch \<noteq> CHR '';'') c"
    using calculation hd_split_on [of "CHR '';''" c] by (simp add: custom_id_args_def)
  ultimately show ?thesis by (simp add: classify_component_def)
qed

section \<open>Properties\<close>

text \<open>
  C7. Round trip of the codec: the router decodes every identifier the encoder
  produces back to the encoded action and the same ordered fields, as long as no
  field contains the delimiter \<open>;\<close>.
\<close>

theorem decode_encode_custom_id:
  assumes "\<forall>f \<in> set fields. CHR '';'' \<notin> set f"
  shows "decode_custom_id (encode_custom_id a fields) = (a, fields)"
proof -
  have "custom_id_args (encode_custom_id a fields) = action_tag a # fields"
    using assms by (simp add: custom_id_args_def encode_custom_id_def split_join_on)
  then show ?thesis by (simp add: decode_custom_id_def)
qed

theorem decode_encode_custom_id_witness:
  "decode_custom_id (encode_custom_id (ActLeaderboard LbFirst) [''G1'', ''M1''])
     = (ActLeaderboard LbFirst, [''G1'', ''M1''])"
  by (rule decode_encode_custom_id) simp

end
