(* ===== verification/Pagination.thy ===== *)
theory Pagination
  imports Custom_Id World
begin

text \<open>
  The leaderboard branch of the component router (\<open>src/app.js\<close>, the block
  under \<open>args[0].slice(0,2) === 'lb'\<close>): from the split identifier \<open>args\<close>, the
  selected values of a select menu and the message's first embed, the positional
  arguments of \<open>trackmania.leaderboard(live_service, track_info, args[3], true,
  args[4])\<close>. Depending on \<open>lbargs[1]\<close> the code appends \<open>undefined\<close> (first
  page), the number \<open>1000 - args[2]\<close> (last page), or the pieces of
  \<open>data.values[0].split(';')\<close> (a chosen page) to \<open>args\<close>, and reads the cursor
  and the extra argument at positions 3 and 4 of the extended array.
\<close>

section \<open>The pushed arguments\<close>

definition lb_push_args :: "string list \<Rightarrow> string list option \<Rightarrow> jserror + jsval list" where
  "lb_push_args args values =
     (let jargs = map Str args in
      case args of
        [] \<Rightarrow> Inl (TypeError ''Cannot read properties of undefined (reading split)'')
      | arg0 # _ \<Rightarrow>
          (case lb_kind_of arg0 of
             LbFirst \<Rightarrow> Inr (jargs @ [Undefined])
           | LbLast \<Rightarrow> Inr (jargs @ [Num (num_sub (Fin 1000) (to_number (js_at jargs 2)))])
           | LbPage \<Rightarrow>
               (case values of
                  None \<Rightarrow> Inl (TypeError ''Cannot read properties of undefined (reading 0)'')
                | Some vs \<Rightarrow>
                    (case nth_opt vs 0 of
                       None \<Rightarrow> Inl (TypeError ''Cannot read properties of undefined (reading split)'')
                     | Some v0 \<Rightarrow> Inr (jargs @ map Str (split_on CHR '';'' v0))))
           | LbOther \<Rightarrow> Inr jargs))"

text \<open>\<open>message.embeds[0].author.name\<close>.\<close>

definition embed_author_name :: "jsval list \<Rightarrow> jserror + jsval" where
  "embed_author_name embeds =
     (case get_property (js_at embeds 0) ''author'' of
        Inl e \<Rightarrow> Inl e
      | Inr a \<Rightarrow> get_property a ''name'')"

definition leaderboard_call :: "jsval \<Rightarrow> jsval list \<Rightarrow> api_call" where
  "leaderboard_call author_name args =
     Leaderboard \<lparr>author = author_name, groupUid = js_at args 1, mapUid = js_at args 2\<rparr>
       (js_at args 3) True (js_at args 4)"

section \<open>Lemmas\<close>

lemma lb_push_args_prefix:
  "lb_push_args args values = Inr xs \<Longrightarrow> \<exists>ys. xs = map Str args @ ys"
  by (auto simp: lb_push_args_def Let_def split: list.splits lb_kind.splits option.splits)

lemma js_at_lb_args_low:
  "lb_push_args args values = Inr xs \<Longrightarrow> i < length args \<Longrightarrow> js_at xs i = Str (args ! i)"
  by (auto dest!: lb_push_args_prefix simp: js_at_def nth_opt_def nth_append)

section \<open>Properties\<close>

text \<open>
  C26. A chosen page: the select menu's value \<open>c;x\<close> is split at \<open>;\<close> and its
  pieces become the cursor and the extra argument of the leaderboard call, in
  this order, when neither piece holds a \<open>;\<close>. Without selected values the
  branch throws a \<open>TypeError\<close> before any call.
\<close>

theorem leaderboard_chosen_page:
  assumes "lb_kind_of lead = LbPage" and "CHR '';'' \<notin> set c" and "CHR '';'' \<notin> set x"
  shows "(\<exists>xs. lb_push_args [lead, g, m] (Some (join_on CHR '';'' [c, x] # vs)) = Inr xs
              \<and> leaderboard_call au xs =
                  Leaderboard \<lparr>author = au, groupUid = Str g, mapUid = Str m\<rparr> (Str c) True (Str x))
         \<and> lb_push_args [lead, g, m] None =
             Inl (TypeError ''Cannot read properties of undefined (reading 0)'')"
proof -
  have "split_on CHR '';'' (join_on CHR '';'' [c, x]) = [c, x]"
    using assms(2,3) by (intro split_join_on) auto
  then have "split_on CHR '';'' (c @ CHR '';'' # x) = [c, x]" by simp
  with assms(1) show ?thesis by (simp add: lb_push_args_def leaderboard_call_def)
qed

theorem leaderboard_chosen_page_witness:
  "(\<exists>xs. lb_push_args [''lb_p'', ''G1'', ''M1''] (Some [''50;x'']) = Inr xs
        \<and> leaderboard_call (Str ''Bob'') xs =
            Leaderboard \<lparr>author = Str ''Bob'', groupUid = Str ''G1'', mapUid = Str ''M1''\<rparr>
              (Str ''50'') True (Str ''x''))
   \<and> lb_push_args [''lb_p'', ''G1'', ''M1''] None =
       Inl (TypeError ''Cannot read properties of undefined (reading 0)'')"
proof -
  have "lb_kind_of ''lb_p'' = LbPage" by (simp add: lb_kind_of_def)
  then show ?thesis
    using leaderboard_chosen_page [of "''lb_p''" "''50''" "''x''" "''G1''" "''M1''" "[]" "Str ''Bob''"]
    by simp
qed

end
