(* ===== verification/Cache.thy ===== *)
theory Cache
  imports World
begin

text \<open>
  The track-of-the-day cache of \<open>src/app.js\<close>: \<open>getUpToDateTOTDInfo(filepath,
  callback)\<close> reads \<open>totd.json\<close>, and when its \<open>endTimestamp\<close> lies before
  \<open>Math.floor(Date.now() / 1000)\<close> awaits \<open>callback\<close>, writes its JSON text to
  the file and reads the file again. \<open>callback\<close> is a promise its caller
  created before the call, so the fetch has already been issued when the file is
  read; on the paths that never await it, a rejection of that promise is left
  unhandled.

  \<open>readFile_json\<close> and \<open>writeFile_json\<close> are \<open>fs.promises.readFile\<close> with
  \<open>JSON.parse\<close> and \<open>fs.promises.writeFile\<close> with \<open>JSON.stringify\<close>; the file
  holds the JSON value (\<open>json_value\<close>) of what was written.
\<close>

section \<open>File access\<close>

definition totdfile :: string where
  "totdfile = ''totd.json''"

definition readFile_json :: "string \<Rightarrow> jsval io" where
  "readFile_json path =
     await (emit (ReadFile path)) (\<lambda>_.
       State (\<lambda>w. (case files w path of
                      None \<Rightarrow> Inl (FsError (''ENOENT: no such file or directory, open '' @ path))
                    | Some NotJson \<Rightarrow> Inl SyntaxError
                    | Some (JsonText v) \<Rightarrow> Inr v, w)))"

definition writeFile_json :: "string \<Rightarrow> jsval \<Rightarrow> unit io" where
  "writeFile_json path data =
     (case json_value data of
        None \<Rightarrow> throw (TypeError ''The data argument must be of type string'')
      | Some v \<Rightarrow>
          State (\<lambda>w. (Inr (), w\<lparr>files := (files w)(path \<mapsto> JsonText v),
                                trace := trace w @ [WriteFile path v]\<rparr>)))"

text \<open>A failure before \<open>callback\<close> is awaited leaves its rejection unhandled.\<close>

definition abandoning :: "jserror + 'b \<Rightarrow> 'a io \<Rightarrow> 'a io" where
  "abandoning callback m = catch m (\<lambda>e. await (forsake callback) (\<lambda>_. throw e))"

section \<open>getUpToDateTOTDInfo\<close>

definition now_seconds :: "int \<Rightarrow> jsnum" where
  "now_seconds ms = Fin (of_int (ms div 1000))"

definition getUpToDateTOTDInfo :: "string \<Rightarrow> jserror + jsval \<Rightarrow> jsval io" where
  "getUpToDateTOTDInfo filepath callback =
     await (abandoning callback (readFile_json filepath)) (\<lambda>json.
     await (abandoning callback (settle (get_property json ''endTimestamp''))) (\<lambda>endTimestamp.
     await clock (\<lambda>now.
       if num_less (to_number endTimestamp) (now_seconds now) then
         await (settle callback) (\<lambda>data.
         await (writeFile_json filepath data) (\<lambda>_.
         readFile_json filepath))
       else
         await (forsake callback) (\<lambda>_. ok json))))"

text \<open>
  The record a caller receives is fresh at \<open>now\<close> when its \<open>endTimestamp\<close> can be
  read and is not before the current second, in JavaScript's comparison.
\<close>

definition fresh_at :: "int \<Rightarrow> jsval \<Rightarrow> bool" where
  "fresh_at now json =
     (case get_property json ''endTimestamp'' of
        Inl _ \<Rightarrow> False
      | Inr e \<Rightarrow> \<not> num_less (to_number e) (now_seconds now))"

definition stale_at :: "int \<Rightarrow> jsval \<Rightarrow> bool" where
  "stale_at now json =
     (case get_property json ''endTimestamp'' of
        Inl _ \<Rightarrow> False
      | Inr e \<Rightarrow> num_less (to_number e) (now_seconds now))"

text \<open>
  The specification's assumption on the recomputed record: an object whose
  \<open>endTimestamp\<close> is a finite number not before the current second.
\<close>

definition fresh_record :: "int \<Rightarrow> jsval \<Rightarrow> bool" where
  "fresh_record now d =
     (case d of
        Obj kvs \<Rightarrow>
          (case map_of kvs ''endTimestamp'' of
             Some (Num (Fin q)) \<Rightarrow> of_int (now div 1000) \<le> q
           | _ \<Rightarrow> False)
      | _ \<Rightarrow> False)"

definition unhandled_of :: "jserror + 'a \<Rightarrow> effect list" where
  "unhandled_of r = (case r of Inl e \<Rightarrow> [Unhandled e] | Inr _ \<Rightarrow> [])"

section \<open>Running the file operations\<close>

lemma run_readFile_json [io_simps]:
  "run_state (readFile_json p) w =
     (case files w p of
        None \<Rightarrow> Inl (FsError (''ENOENT: no such file or directory, open '' @ p))
      | Some NotJson \<Rightarrow> Inl SyntaxError
      | Some (JsonText v) \<Rightarrow> Inr v,
      w\<lparr>trace := trace w @ [ReadFile p]\<rparr>)"
  by (simp add: readFile_json_def)

lemma run_readFile_json_JsonText [simp]:
  "files w p = Some (JsonText v) \<Longrightarrow>
   run_state (readFile_json p) w = (Inr v, w\<lparr>trace := trace w @ [ReadFile p]\<rparr>)"
  by (simp add: run_readFile_json)

lemma run_writeFile_json [io_simps]:
  "run_state (writeFile_json p d) w =
     (case json_value d of
        None \<Rightarrow> (Inl (TypeError ''The data argument must be of type string''), w)
      | Some v \<Rightarrow> (Inr (), w\<lparr>files := (files w)(p \<mapsto> JsonText v),
                             trace := trace w @ [WriteFile p v]\<rparr>))"
  by (simp add: writeFile_json_def split: option.split)

lemma run_abandoning [simp, io_simps]:
  "run_state (abandoning cb m) w =
     (case run_state m w of
        (Inl e, w') \<Rightarrow> (Inl e, w'\<lparr>trace := trace w' @ unhandled_of cb\<rparr>)
      | (Inr x, w') \<Rightarrow> (Inr x, w'))"
  by (simp add: abandoning_def unhandled_of_def split: prod.split sum.split)

lemma fresh_stale_exclusive: "fresh_at now j \<Longrightarrow> \<not> stale_at now j"
  by (simp add: fresh_at_def stale_at_def split: sum.splits)

section \<open>The two paths\<close>

text \<open>A record that is not stale is returned as read: one read, no write.\<close>

lemma getUpToDate_not_stale:
  assumes "files w p = Some (JsonText j)"
    and "get_property j ''endTimestamp'' = Inr e"
    and "\<not> num_less (to_number e) (now_seconds (now_ms w))"
  shows "run_state (getUpToDateTOTDInfo p cb) w =
           (Inr j, w\<lparr>trace := trace w @ [ReadFile p] @ unhandled_of cb\<rparr>)"
  using assms by (simp add: getUpToDateTOTDInfo_def unhandled_of_def split: sum.split)

text \<open>A stale record is replaced: read, write, read again.\<close>

lemma getUpToDate_stale:
  assumes "files w p = Some (JsonText j)"
    and "stale_at (now_ms w) j"
    and "cb = Inr d" and "json_value d = Some v"
  shows "run_state (getUpToDateTOTDInfo p cb) w =
           (Inr v, w\<lparr>files := (files w)(p \<mapsto> JsonText v),
                     trace := trace w @ [ReadFile p, WriteFile p v, ReadFile p]\<rparr>)"
  using assms
  by (simp add: getUpToDateTOTDInfo_def stale_at_def run_writeFile_json run_readFile_json
      split: sum.splits)

lemma getUpToDate_stale_Inr:
  assumes "files w p = Some (JsonText j)" and "stale_at (now_ms w) j" and "json_value d = Some v"
  shows "run_state (getUpToDateTOTDInfo p (Inr d)) w =
           (Inr v, w\<lparr>files := (files w)(p \<mapsto> JsonText v),
                     trace := trace w @ [ReadFile p, WriteFile p v, ReadFile p]\<rparr>)"
  by (rule getUpToDate_stale [OF assms(1,2) refl assms(3)])

lemma getUpToDate_Inr_cases:
  assumes "run_state (getUpToDateTOTDInfo p cb) w = (Inr r, w')"
  obtains j e where "files w p = Some (JsonText j)" "get_property j ''endTimestamp'' = Inr e"
      "\<not> num_less (to_number e) (now_seconds (now_ms w))" "r = j"
      "w' = w\<lparr>trace := trace w @ [ReadFile p] @ unhandled_of cb\<rparr>"
  | j d where "files w p = Some (JsonText j)" "stale_at (now_ms w) j" "cb = Inr d"
      "json_value d = Some r"
      "w' = w\<lparr>files := (files w)(p \<mapsto> JsonText r),
              trace := trace w @ [ReadFile p, WriteFile p r, ReadFile p]\<rparr>"
proof -
  from assms obtain j where j: "files w p = Some (JsonText j)"
    by (cases "files w p" rule: option.exhaust) (auto simp: getUpToDateTOTDInfo_def
        run_readFile_json split: file_content.splits)
  from assms j obtain e where e: "get_property j ''endTimestamp'' = Inr e"
    by (cases "get_property j ''endTimestamp''") (auto simp: getUpToDateTOTDInfo_def)
  show thesis
  proof (cases "num_less (to_number e) (now_seconds (now_ms w))")
    case False
    with assms j e show thesis
      by (simp add: getUpToDate_not_stale) (rule that(1); simp_all add: j e)
  next
    case True
    then have st: "stale_at (now_ms w) j" by (simp add: stale_at_def e)
    from assms j e True obtain d where d: "cb = Inr d"
      by (cases cb) (auto simp: getUpToDateTOTDInfo_def)
    from assms j e True d obtain v where v: "json_value d = Some v"
      by (cases "json_value d") (auto simp: getUpToDateTOTDInfo_def run_writeFile_json)
    have eq: "run_state (getUpToDateTOTDInfo p cb) w = (Inr v, w\<lparr>files := (files w)(p \<mapsto> JsonText v),
        trace := trace w @ [ReadFile p, WriteFile p v, ReadFile p]\<rparr>)"
      by (rule getUpToDate_stale [OF j st d v])
    with assms have "r = v" and "w' = w\<lparr>files := (files w)(p \<mapsto> JsonText v),
        trace := trace w @ [ReadFile p, WriteFile p v, ReadFile p]\<rparr>" by auto
    with that(2) [OF j st d] v show thesis by simp
  qed
qed

lemma map_of_json_members:
  assumes "map_of kvs k = Some v" and "json_value v = Some v'"
  shows "map_of (concat (map (\<lambda>kv. case json_value (snd kv) of
                                      None \<Rightarrow> []
                                    | Some w \<Rightarrow> [(fst kv, w)]) kvs)) k = Some v'"
  using assms by (induction kvs) (auto split: option.splits if_splits)

lemma fresh_record_json_value:
  assumes "fresh_record now d" and "json_value d = Some v"
  shows "fresh_at now v"
proof -
  from assms(1) obtain kvs where d: "d = Obj kvs"
    by (cases d) (auto simp: fresh_record_def)
  with assms(1) obtain x where x: "map_of kvs ''endTimestamp'' = Some x"
    by (cases "map_of kvs ''endTimestamp''") (auto simp: fresh_record_def)
  have "\<exists>q. x = Num (Fin q) \<and> of_int (now div 1000) \<le> q"
    using assms(1) d x by (cases x) (auto simp: fresh_record_def split: jsnum.splits)
  then obtain q where k: "map_of kvs ''endTimestamp'' = Some (Num (Fin q))"
    and le: "of_int (now div 1000) \<le> q"
    using x by blast
  have "json_value (Num (Fin q)) = Some (Num (Fin q))" by simp
  with k have "map_of (concat (map (\<lambda>kv. case json_value (snd kv) of
                                      None \<Rightarrow> []
                                    | Some w \<Rightarrow> [(fst kv, w)]) kvs)) ''endTimestamp''
               = Some (Num (Fin q))"
    by (rule map_of_json_members)
  with assms(2) d le show ?thesis
    by (auto simp: fresh_at_def now_seconds_def)
qed

lemma getUpToDate_Inr_file:
  assumes "run_state (getUpToDateTOTDInfo p cb) w = (Inr r, w')"
  shows "files w' p = Some (JsonText r) \<and> now_ms w' = now_ms w"
  using assms by (cases rule: getUpToDate_Inr_cases) simp_all

lemma fresh_atE:
  assumes "fresh_at now j"
  obtains e where "get_property j ''endTimestamp'' = Inr e"
    "\<not> num_less (to_number e) (now_seconds now)"
  using assms by (cases "get_property j ''endTimestamp''") (auto simp: fresh_at_def)

lemma only_emits_readFile_json [emits_intros]:
  "P (ReadFile p) \<Longrightarrow> only_emits P (readFile_json p)"
  by (simp add: only_emits_def run_readFile_json)

lemma only_emits_writeFile_json [emits_intros]:
  "(\<And>v. P (WriteFile p v)) \<Longrightarrow> only_emits P (writeFile_json p d)"
  by (simp add: only_emits_def run_writeFile_json split: option.split)

lemma only_emits_abandoning [emits_intros]:
  "only_emits P m \<Longrightarrow> (\<And>e. P (Unhandled e)) \<Longrightarrow> only_emits P (abandoning cb m)"
  unfolding abandoning_def by (intro emits_intros)

lemma only_emits_getUpToDate [emits_intros]:
  "P (ReadFile p) \<Longrightarrow> (\<And>v. P (WriteFile p v)) \<Longrightarrow> (\<And>e. P (Unhandled e)) \<Longrightarrow>
   only_emits P (getUpToDateTOTDInfo p cb)"
  unfolding getUpToDateTOTDInfo_def by (intro emits_intros)

section \<open>Properties\<close>

text \<open>
  C2. Staleness monotonicity: when the recomputed record is fresh, whatever
  \<open>getUpToDateTOTDInfo\<close> returns is fresh at the moment of return, on both paths.
\<close>

theorem getUpToDate_returns_fresh:
  assumes run: "run_state (getUpToDateTOTDInfo p cb) w = (Inr r, w')"
    and cb_fresh: "\<forall>d. cb = Inr d \<longrightarrow> fresh_record (now_ms w) d"
  shows "fresh_at (now_ms w) r"
  using run
proof (cases rule: getUpToDate_Inr_cases)
  case (1 j e)
  then show ?thesis by (simp add: fresh_at_def)
next
  case (2 j d)
  with cb_fresh show ?thesis by (simp add: fresh_record_json_value)
qed

theorem getUpToDate_returns_fresh_witness:
  "\<exists>w'. run_state (getUpToDateTOTDInfo ''totd.json''
            (Inr (Obj [(''endTimestamp'', Num (Fin 300)), (''name'', Str ''A'')])))
          \<lparr>files = [''totd.json'' \<mapsto> JsonText (Obj [(''endTimestamp'', Num (Fin 100))])],
           now_ms = 200000, trace = []\<rparr>
        = (Inr (Obj [(''endTimestamp'', Num (Fin 300)), (''name'', Str ''A'')]), w')
     \<and> (\<forall>d. Inr (Obj [(''endTimestamp'', Num (Fin 300)), (''name'', Str ''A'')]) = Inr d
            \<longrightarrow> fresh_record 200000 d)
     \<and> fresh_at 200000 (Obj [(''endTimestamp'', Num (Fin 300)), (''name'', Str ''A'')])"
proof -
  let ?d = "Obj [(''endTimestamp'', Num (Fin 300)), (''name'', Str ''A'')]"
  let ?w = "\<lparr>files = [''totd.json'' \<mapsto> JsonText (Obj [(''endTimestamp'', Num (Fin 100))])],
            now_ms = 200000, trace = []\<rparr> :: world"
  obtain w' where run: "run_state (getUpToDateTOTDInfo ''totd.json'' (Inr ?d)) ?w = (Inr ?d, w')"
    by (simp add: getUpToDateTOTDInfo_def now_seconds_def run_writeFile_json)
  have cb: "\<forall>d. Inr ?d = Inr d \<longrightarrow> fresh_record (now_ms ?w) d"
    by (simp add: fresh_record_def)
  from getUpToDate_returns_fresh [OF run cb] run cb show ?thesis by auto
qed

text \<open>
  C6. Idempotent read: right after a call that succeeded (with a fresh recomputed
  record), a second call performs exactly one file read and no write, and returns
  the same record.
\<close>

theorem getUpToDate_second_call_only_reads:
  assumes run: "run_state (getUpToDateTOTDInfo p cb) w = (Inr r, w1)"
    and cb_fresh: "\<forall>d. cb = Inr d \<longrightarrow> fresh_record (now_ms w) d"
  shows "run_state (getUpToDateTOTDInfo p cb') w1 =
           (Inr r, w1\<lparr>trace := trace w1 @ [ReadFile p] @ unhandled_of cb'\<rparr>)"
proof -
  from run have stored: "files w1 p = Some (JsonText r)" and now: "now_ms w1 = now_ms w"
    using getUpToDate_Inr_file by blast+
  from run have "fresh_at (now_ms w) r"
  proof (cases rule: getUpToDate_Inr_cases)
    case (1 j e)
    then show ?thesis by (simp add: fresh_at_def)
  next
    case (2 j d)
    with cb_fresh show ?thesis by (simp add: fresh_record_json_value)
  qed
  then obtain e where "get_property r ''endTimestamp'' = Inr e"
      "\<not> num_less (to_number e) (now_seconds (now_ms w1))"
    using now by (auto elim: fresh_atE)
  with stored show ?thesis by (rule getUpToDate_not_stale)
qed

theorem getUpToDate_second_call_only_reads_witness:
  "\<exists>w1. run_state (getUpToDateTOTDInfo ''totd.json'' (Inr (Obj [(''endTimestamp'', Num (Fin 300))])))
          \<lparr>files = [''totd.json'' \<mapsto> JsonText (Obj [(''endTimestamp'', Num (Fin 100))])],
           now_ms = 200000, trace = []\<rparr>
        = (Inr (Obj [(''endTimestamp'', Num (Fin 300))]), w1)
     \<and> run_state (getUpToDateTOTDInfo ''totd.json'' (Inr Null)) w1
        = (Inr (Obj [(''endTimestamp'', Num (Fin 300))]),
           w1\<lparr>trace := trace w1 @ [ReadFile ''totd.json''] @ unhandled_of (Inr Null :: jserror + jsval)\<rparr>)"
proof -
  let ?d = "Obj [(''endTimestamp'', Num (Fin 300))]"
  let ?w = "\<lparr>files = [''totd.json'' \<mapsto> JsonText (Obj [(''endTimestamp'', Num (Fin 100))])],
            now_ms = 200000, trace = []\<rparr> :: world"
  obtain w1 where run: "run_state (getUpToDateTOTDInfo ''totd.json'' (Inr ?d)) ?w = (Inr ?d, w1)"
    by (simp add: getUpToDateTOTDInfo_def now_seconds_def run_writeFile_json)
  have cb: "\<forall>d. Inr ?d = Inr d \<longrightarrow> fresh_record (now_ms ?w) d"
    by (simp add: fresh_record_def)
  from getUpToDate_second_call_only_reads [OF run cb, of "Inr Null"] run show ?thesis by blast
qed

text \<open>
  C11. Finding: the fetch of the track of the day is started by the caller before
  the file is read, and is only awaited when the record is stale. When the record
  is fresh and the data provider fails, the request is answered from the file but
  the rejected promise is never handled: an unhandled rejection, which terminates
  a Node.js process by default.
\<close>

theorem fresh_cache_provider_failure_unhandled:
  assumes "files w p = Some (JsonText j)" and "fresh_at (now_ms w) j"
  shows "run_state (getUpToDateTOTDInfo p (Inl err)) w =
           (Inr j, w\<lparr>trace := trace w @ [ReadFile p, Unhandled err]\<rparr>)"
proof -
  from assms(2) obtain e where "get_property j ''endTimestamp'' = Inr e"
      "\<not> num_less (to_number e) (now_seconds (now_ms w))"
    by (rule fresh_atE)
  with assms(1) show ?thesis
    by (simp add: getUpToDate_not_stale unhandled_of_def)
qed

theorem fresh_cache_provider_failure_unhandled_witness:
  "files \<lparr>files = [''totd.json'' \<mapsto> JsonText (Obj [(''endTimestamp'', Num (Fin 300))])],
          now_ms = 200000, trace = []\<rparr> ''totd.json''
     = Some (JsonText (Obj [(''endTimestamp'', Num (Fin 300))]))
   \<and> fresh_at 200000 (Obj [(''endTimestamp'', Num (Fin 300))])
   \<and> run_state (getUpToDateTOTDInfo ''totd.json'' (Inl (ProviderError ''503'')))
        \<lparr>files = [''totd.json'' \<mapsto> JsonText (Obj [(''endTimestamp'', Num (Fin 300))])],
         now_ms = 200000, trace = []\<rparr>
     = (Inr (Obj [(''endTimestamp'', Num (Fin 300))]),
        \<lparr>files = [''totd.json'' \<mapsto> JsonText (Obj [(''endTimestamp'', Num (Fin 300))])],
         now_ms = 200000, trace = [ReadFile ''totd.json'', Unhandled (ProviderError ''503'')]\<rparr>)"
proof -
  let ?w = "\<lparr>files = [''totd.json'' \<mapsto> JsonText (Obj [(''endTimestamp'', Num (Fin 300))])],
            now_ms = 200000, trace = []\<rparr> :: world"
  have f: "files ?w ''totd.json'' = Some (JsonText (Obj [(''endTimestamp'', Num (Fin 300))]))"
    by simp
  have fr: "fresh_at (now_ms ?w) (Obj [(''endTimestamp'', Num (Fin 300))])"
    by (simp add: fresh_at_def now_seconds_def)
  from fresh_cache_provider_failure_unhandled [OF f fr, of "ProviderError ''503''"] f fr
  show ?thesis by simp
qed

end
