(* ===== verification/Dates.thy ===== *)
theory Dates
  imports Js_Values
begin

text \<open>
  The part of JavaScript's \<open>Date\<close> the \<open>totd past\<close> command uses:
  \<open>new Date(year, monthIndex, day)\<close> in the process's local time zone, as
  ECMAScript defines it (years 0 to 99 mean 1900 to 1999, months and days
  overflow into the next year or month, a non-finite argument gives an Invalid
  Date), and the comparison of two dates by their time values, which is false
  whenever one of them is invalid. A date is its time value in milliseconds
  since 1970-01-01 UTC, \<open>None\<close> for an Invalid Date. The local time zone is a
  fixed offset (\<open>utc_offset\<close> of the environment); daylight saving time is not
  modelled.
\<close>

section \<open>Calendar arithmetic\<close>

text \<open>Days from 1970-01-01 to the first day of a month of the proleptic Gregorian calendar.\<close>

definition days_from_civil :: "int \<Rightarrow> int \<Rightarrow> int \<Rightarrow> int" where
  "days_from_civil y m d =
     (let y' = (if m \<le> 2 then y - 1 else y);
          era = y' div 400;
          yoe = y' - era * 400;
          mp = (m + 9) mod 12;
          doy = (153 * mp + 2) div 5 + d - 1;
          doe = yoe * 365 + yoe div 4 - yoe div 100 + doy
      in era * 146097 + doe - 719468)"

text \<open>MakeDay: month indices outside 0..11 carry into the year.\<close>

definition make_day :: "int \<Rightarrow> int \<Rightarrow> int \<Rightarrow> int" where
  "make_day year month date = days_from_civil (year + month div 12) (month mod 12 + 1) 1 + date - 1"

definition ms_per_day :: int where
  "ms_per_day = 86400000"

text \<open>ToIntegerOrInfinity on a finite number truncates towards zero.\<close>

definition js_to_integer :: "jsnum \<Rightarrow> int option" where
  "js_to_integer n = (case n of Fin q \<Rightarrow> Some (if 0 \<le> q then \<lfloor>q\<rfloor> else \<lceil>q\<rceil>) | _ \<Rightarrow> None)"

definition time_clip :: "int \<Rightarrow> int option" where
  "time_clip t = (if \<bar>t\<bar> \<le> 8640000000000000 then Some t else None)"

text \<open>\<open>new Date(y, m, d)\<close>, with the arguments already converted by ToNumber.\<close>

definition new_Date :: "int \<Rightarrow> jsnum \<Rightarrow> jsnum \<Rightarrow> jsnum \<Rightarrow> int option" where
  "new_Date offset y m d =
     (case (js_to_integer y, js_to_integer m, js_to_integer d) of
        (Some yi, Some mi, Some di) \<Rightarrow>
          (let yr = (if 0 \<le> yi \<and> yi \<le> 99 then 1900 + yi else yi)
           in time_clip (make_day yr mi di * ms_per_day - offset))
      | _ \<Rightarrow> None)"

definition startDate :: "int \<Rightarrow> int option" where
  "startDate offset = new_Date offset (Fin 2020) (Fin 6) (Fin 1)"

definition date_gt :: "int option \<Rightarrow> int option \<Rightarrow> bool" where
  "date_gt a b = (case (a, b) of (Some x, Some y) \<Rightarrow> y < x | _ \<Rightarrow> False)"

definition date_lt :: "int option \<Rightarrow> int option \<Rightarrow> bool" where
  "date_lt a b = (case (a, b) of (Some x, Some y) \<Rightarrow> x < y | _ \<Rightarrow> False)"

section \<open>Lemmas\<close>

lemmas date_eval = new_Date_def js_to_integer_def make_day_def days_from_civil_def
  ms_per_day_def time_clip_def startDate_def

lemma days_from_civil_epoch: "days_from_civil 1970 1 1 = 0"
  by (simp add: days_from_civil_def)

lemma make_day_2020_july: "make_day 2020 6 1 = 18444"
  by (simp add: make_day_def days_from_civil_def)

text \<open>Every real time zone is less than a day away from UTC.\<close>

lemma startDate_value: "\<bar>off\<bar> \<le> ms_per_day \<Longrightarrow> startDate off = Some (18444 * ms_per_day - off)"
  by (simp add: startDate_def new_Date_def js_to_integer_def make_day_2020_july ms_per_day_def
      time_clip_def)

lemma date_gt_None [simp]: "\<not> date_gt None b" "\<not> date_gt a None"
  by (simp_all add: date_gt_def split: option.split)

lemma date_lt_None [simp]: "\<not> date_lt None b" "\<not> date_lt a None"
  by (simp_all add: date_lt_def split: option.split)

lemma date_gt_Some [simp]: "date_gt (Some x) (Some y) \<longleftrightarrow> y < x"
  by (simp add: date_gt_def)

lemma date_lt_Some [simp]: "date_lt (Some x) (Some y) \<longleftrightarrow> x < y"
  by (simp add: date_lt_def)

end
