(* ===== verification/Router.thy ===== *)
theory Router
  imports Error_Responder Pagination Cache Dates
begin

text \<open>
  The interactions endpoint of \<open>src/app.js\<close> (\<open>app.post('/interactions', ...)\<close>):
  the request's \<open>type\<close> selects the slash-command branch (commands \<open>test\<close>,
  \<open>tucker\<close>, \<open>totd\<close>) or the message-component branch (actions decoded from
  \<open>custom_id\<close>, theory \<open>Custom_Id\<close>). Each branch first answers the HTTP request
  (\<open>res.send\<close>), then calls the data provider and PATCHes the result into the
  original response or message; failures are routed to \<open>embeddedErrorMessage\<close>
  where the code attaches a \<open>.catch\<close>, and escape the handler elsewhere.

  Every read of a field the code performs on request data that may be absent
  is a \<open>TypeError\<close> when the container is \<open>undefined\<close>, as in JavaScript:
  \<open>option_at\<close> reads \<open>options[i]\<close>, \<open>embed_author_name\<close> reads
  \<open>message.embeds[0].author.name\<close>.
\<close>

section \<open>Request data\<close>

datatype cmd_option = CmdOption (opt_name: string) (opt_value: jsval) (sub_options: "cmd_option list option")

record message =
  channel_id :: string
  message_id :: string
  embeds :: "jsval list"

record interaction =
  itype :: int
  data_name :: string
  data_options :: "cmd_option list option"
  custom_id :: string
  data_values :: "string list option"
  token :: string
  message :: message

text \<open>
  The enumerations of \<open>discord-interactions\<close>. \<open>InteractionResponseType\<close> has no
  member \<open>PING\<close> (its value 1 is \<open>PONG\<close>), so the handler's first test compares
  the type with \<open>undefined\<close>.
\<close>

definition InteractionType_PING :: int where "InteractionType_PING = 1"
definition InteractionType_APPLICATION_COMMAND :: int where "InteractionType_APPLICATION_COMMAND = 2"
definition InteractionType_MESSAGE_COMPONENT :: int where "InteractionType_MESSAGE_COMPONENT = 3"
definition InteractionResponseType_PING :: "int option" where "InteractionResponseType_PING = None"

lemmas interaction_types =
  InteractionType_PING_def InteractionType_APPLICATION_COMMAND_def
  InteractionType_MESSAGE_COMPONENT_def InteractionResponseType_PING_def

definition option_at :: "cmd_option list option \<Rightarrow> nat \<Rightarrow> string \<Rightarrow> jserror + cmd_option" where
  "option_at opts i prop =
     (case opts of
        None \<Rightarrow> Inl (TypeError ''Cannot read properties of undefined (reading an index)'')
      | Some os \<Rightarrow>
          (case nth_opt os i of
             None \<Rightarrow> Inl (TypeError (''Cannot read properties of undefined (reading '' @ prop @ '')''))
           | Some opt \<Rightarrow> Inr opt))"

definition command_endpoint :: "env \<Rightarrow> interaction \<Rightarrow> string" where
  "command_endpoint E i = ''webhooks/'' @ app_id E @ ''/'' @ token i @ ''/messages/@original''"

definition component_endpoint :: "interaction \<Rightarrow> string" where
  "component_endpoint i =
     ''channels/'' @ channel_id (message i) @ ''/messages/'' @ message_id (message i)"

text \<open>
  \<open>DiscordRequest\<close> serialises a truthy body only (\<open>if (options.body)\<close>). Any
  other body is passed to \<open>fetch\<close> as it is: \<open>undefined\<close> and \<open>null\<close> send no
  body, and \<open>false\<close>, \<open>0\<close>, \<open>NaN\<close> and \<open>''\<close> are sent as their string form.
\<close>

definition request_body :: "jsval \<Rightarrow> body" where
  "request_body v =
     (if js_truthy v then Payload v
      else if v = Undefined \<or> v = Null then NoBody
      else RawText (falsy_string v))"

section \<open>Slash commands\<close>

definition test_button_id :: string where
  "test_button_id = ''test_button''"

definition test_command :: "env \<Rightarrow> interaction \<Rightarrow> unit io" where
  "test_command E i =
     (let endpoint = command_endpoint E i in
      await (respond DeferredChannelMessage) (\<lambda>_.
      catch (DiscordRequest E endpoint PATCH (DemoEmbed test_button_id))
            (embeddedErrorMessage E endpoint)))"

definition tucker_content :: string where
  "tucker_content = ''i miss him <@203284058673774592>''"

definition tucker_command :: "env \<Rightarrow> interaction \<Rightarrow> unit io" where
  "tucker_command E i =
     catch (respond (ChannelMessage tucker_content True))
           (embeddedErrorMessage E (command_endpoint E i))"

definition date_too_early :: jserror where
  "date_too_early = Error ''Date given is before Trackmania came out, silly :)''"

text \<open>
  \<open>totd past\<close>: the date from the year, month and day options, moved to now when
  it lies in the future; a date before the game's release triggers an error
  report that is not awaited, and the code goes on to fetch that date anyway.
\<close>

definition totd_past :: "env \<Rightarrow> string \<Rightarrow> cmd_option list option \<Rightarrow> int \<Rightarrow> jsval io" where
  "totd_past E endpoint opts totdDate =
     await (settle (option_at opts 0 ''value'')) (\<lambda>f0.
     await (settle (option_at opts 1 ''value'')) (\<lambda>f1.
     await (settle (option_at opts 2 ''value'')) (\<lambda>f2.
     (let inputDate = new_Date (utc_offset E) (to_number (opt_value f0))
                        (num_sub (to_number (opt_value f1)) (Fin 1)) (to_number (opt_value f2))
      in await (if date_gt inputDate (Some totdDate) then ok (Some totdDate)
                else if date_lt inputDate (startDate (utc_offset E)) then
                  await (fire_and_forget (embeddedErrorMessage E endpoint date_too_early))
                        (\<lambda>_. ok inputDate)
                else ok inputDate) (\<lambda>d.
         catch (call E (TrackOfTheDay (OnDate d))) (report_error E endpoint))))))"

definition totd_command :: "env \<Rightarrow> interaction \<Rightarrow> unit io" where
  "totd_command E i =
     (let endpoint = command_endpoint E i in
      await (respond DeferredChannelMessage) (\<lambda>_.
      await clock (\<lambda>totdDate.
      await (settle (option_at (data_options i) 0 ''name'')) (\<lambda>opt0.
      await (if opt_name opt0 = ''past'' then totd_past E endpoint (sub_options opt0) totdDate
             else await (start_call E (TrackOfTheDay Today)) (\<lambda>callback.
                  catch (getUpToDateTOTDInfo totdfile callback) (report_error E endpoint)))
        (\<lambda>track_json.
      await (call E (EmbedTrackInfo track_json)) (\<lambda>body.
      catch (DiscordRequest E endpoint PATCH (request_body body))
            (embeddedErrorMessage E endpoint)))))))"

definition application_command :: "env \<Rightarrow> interaction \<Rightarrow> unit io" where
  "application_command E i =
     (if data_name i = ''test'' then test_command E i
      else if data_name i = ''tucker'' then tucker_command E i
      else if data_name i = ''totd'' then totd_command E i
      else ok ())"

section \<open>Message components\<close>

definition leaderboard_component :: "env \<Rightarrow> interaction \<Rightarrow> string \<Rightarrow> string list \<Rightarrow> unit io" where
  "leaderboard_component E i endpoint args =
     await (settle (lb_push_args args (data_values i))) (\<lambda>args'.
     await (settle (embed_author_name (embeds (message i)))) (\<lambda>author_name.
     await (call E (leaderboard_call author_name args')) (\<lambda>body.
     catch (DiscordRequest E endpoint PATCH (request_body body))
           (\<lambda>err. fire_and_forget (embeddedErrorMessage E endpoint err)))))"

definition track_label :: "string list \<Rightarrow> string" where
  "track_label args =
     (if nth_opt args 1 = Some ''totd''
      then ''Track of the Day - '' @ (case nth_opt args 4 of None \<Rightarrow> ''undefined'' | Some s \<Rightarrow> s)
      else ''Map Search'')"

definition track_component :: "env \<Rightarrow> string \<Rightarrow> string list \<Rightarrow> unit io" where
  "track_component E endpoint args =
     await (call E (GetTrackInfo (track_label args) (js_at (map Str args) 2) (js_at (map Str args) 3)))
       (\<lambda>track.
     await (catch (call E (EmbedTrackInfo track)) (report_error E endpoint)) (\<lambda>body.
     catch (DiscordRequest E endpoint PATCH (request_body body))
           (embeddedErrorMessage E endpoint)))"

definition dispatch_component :: "env \<Rightarrow> interaction \<Rightarrow> string \<Rightarrow> string list \<Rightarrow> unit io" where
  "dispatch_component E i endpoint args =
     (case classify_component args of
        ActTest \<Rightarrow> ok ()
      | ActCotd \<Rightarrow> await (call E CupOfTheDay) (\<lambda>res. ok ())
      | ActLeaderboard k \<Rightarrow> leaderboard_component E i endpoint args
      | ActTrack \<Rightarrow> track_component E endpoint args
      | ActUnrecognized \<Rightarrow> ok ())"

definition message_component :: "env \<Rightarrow> interaction \<Rightarrow> unit io" where
  "message_component E i =
     (let endpoint = component_endpoint i;
          args = custom_id_args (custom_id i)
      in await (respond DeferredUpdateMessage) (\<lambda>_. dispatch_component E i endpoint args))"

section \<open>The endpoint\<close>

definition interactions_handler :: "env \<Rightarrow> interaction \<Rightarrow> unit io" where
  "interactions_handler E i =
     (if Some (itype i) = InteractionResponseType_PING then respond Pong
      else await (if itype i = InteractionType_APPLICATION_COMMAND
                  then application_command E i else ok ()) (\<lambda>_.
           if itype i = InteractionType_MESSAGE_COMPONENT then message_component E i else ok ()))"

text \<open>
  The route as Express runs it: \<open>verifyKeyMiddleware\<close> of \<open>discord-interactions\<close>
  answers a PING with PONG itself and passes every other request to the async
  handler, whose rejection nothing handles.
\<close>

definition post_interactions :: "env \<Rightarrow> interaction \<Rightarrow> unit io" where
  "post_interactions E i =
     (if itype i = InteractionType_PING then respond Pong
      else fire_and_forget (interactions_handler E i))"

section \<open>Response discipline\<close>

text \<open>
  A Discord interaction is answered once (\<open>res.send\<close>), and every later
  message goes through PATCH. \<open>acks_first m\<close>: the effects \<open>m\<close> appends contain
  no response, or a response first and none after it.
\<close>

definition is_response :: "effect \<Rightarrow> bool" where
  "is_response ev = (case ev of Respond _ \<Rightarrow> True | _ \<Rightarrow> False)"

abbreviation no_response :: "effect \<Rightarrow> bool" where
  "no_response ev \<equiv> \<not> is_response ev"

definition acks_first :: "'a io \<Rightarrow> bool" where
  "acks_first m \<longleftrightarrow>
     (\<forall>w. \<exists>xs. trace (snd (run_state m w)) = trace w @ xs \<and>
          (list_all no_response xs \<or> (\<exists>r ys. xs = Respond r # ys \<and> list_all no_response ys)))"

lemma is_response_simps [simp]:
  "is_response (Respond r)" "\<not> is_response (Http m u b)" "\<not> is_response (Api c)"
  "\<not> is_response (ReadFile p)" "\<not> is_response (WriteFile p v)" "\<not> is_response (Unhandled e)"
  by (simp_all add: is_response_def)

lemma acks_first_quiet: "only_emits no_response m \<Longrightarrow> acks_first m"
  unfolding acks_first_def by (metis only_emitsD prod.collapse)

lemma acks_first_respond_then:
  assumes "\<And>x. only_emits no_response (f x)"
  shows "acks_first (await (respond r) f)"
  unfolding acks_first_def
proof
  fix w :: world
  let ?w1 = "w\<lparr>trace := trace w @ [Respond r]\<rparr>"
  obtain x w2 where f: "run_state (f ()) ?w1 = (x, w2)" by fastforce
  from only_emitsD [OF assms f] obtain ys where "trace w2 = trace ?w1 @ ys" "list_all no_response ys"
    by blast
  with f show "\<exists>xs. trace (snd (run_state (await (respond r) f) w)) = trace w @ xs \<and>
          (list_all no_response xs \<or> (\<exists>r ys. xs = Respond r # ys \<and> list_all no_response ys))"
    by auto
qed

lemma acks_first_catch_respond: "acks_first (catch (respond r) h)"
  by (auto simp: acks_first_def)

lemma acks_first_await:
  assumes m: "acks_first m" and f: "\<And>x. only_emits no_response (f x)"
  shows "acks_first (await m f)"
  unfolding acks_first_def
proof
  fix w :: world
  obtain r w1 where run: "run_state m w = (r, w1)" by fastforce
  from m run obtain xs where xs: "trace w1 = trace w @ xs"
    and disc: "list_all no_response xs \<or> (\<exists>r ys. xs = Respond r # ys \<and> list_all no_response ys)"
    unfolding acks_first_def by (metis snd_conv)
  show "\<exists>xs. trace (snd (run_state (await m f) w)) = trace w @ xs \<and>
          (list_all no_response xs \<or> (\<exists>r ys. xs = Respond r # ys \<and> list_all no_response ys))"
  proof (cases r)
    case (Inl e)
    with run xs disc show ?thesis by auto
  next
    case (Inr x)
    obtain r2 w2 where fx: "run_state (f x) w1 = (r2, w2)" by fastforce
    from only_emitsD [OF f fx] obtain zs where zs: "trace w2 = trace w1 @ zs" "list_all no_response zs"
      by blast
    from disc show ?thesis
    proof
      assume "list_all no_response xs"
      with run Inr fx xs zs show ?thesis by auto
    next
      assume "\<exists>r ys. xs = Respond r # ys \<and> list_all no_response ys"
      then obtain r' ys where "xs = Respond r' # ys" "list_all no_response ys" by blast
      with run Inr fx xs zs show ?thesis by auto
    qed
  qed
qed

lemma acks_first_fire_and_forget:
  assumes "acks_first m"
  shows "acks_first (fire_and_forget m)"
  unfolding acks_first_def
proof
  fix w :: world
  obtain r w1 where run: "run_state m w = (r, w1)" by fastforce
  from assms run obtain xs where xs: "trace w1 = trace w @ xs"
    and disc: "list_all no_response xs \<or> (\<exists>r ys. xs = Respond r # ys \<and> list_all no_response ys)"
    unfolding acks_first_def by (metis snd_conv)
  show "\<exists>xs. trace (snd (run_state (fire_and_forget m) w)) = trace w @ xs \<and>
          (list_all no_response xs \<or> (\<exists>r ys. xs = Respond r # ys \<and> list_all no_response ys))"
  proof (cases r)
    case (Inl e)
    from disc show ?thesis
    proof
      assume "list_all no_response xs"
      with run Inl xs show ?thesis by auto
    next
      assume "\<exists>r ys. xs = Respond r # ys \<and> list_all no_response ys"
      then obtain r' ys where "xs = Respond r' # ys" "list_all no_response ys" by blast
      with run Inl xs show ?thesis by auto
    qed
  next
    case (Inr x)
    with run xs disc show ?thesis by auto
  qed
qed

lemma acks_first_if: "acks_first a \<Longrightarrow> acks_first b \<Longrightarrow> acks_first (if c then a else b)"
  by simp

section \<open>Each branch answers once, first\<close>

lemmas quiet_intros = emits_intros is_response_simps

lemma quiet_totd_past: "only_emits no_response (totd_past E ep opts now)"
  unfolding totd_past_def by (intro quiet_intros)

lemma quiet_dispatch_component: "only_emits no_response (dispatch_component E i ep args)"
  unfolding dispatch_component_def leaderboard_component_def track_component_def
  by (cases "classify_component args") (simp_all, (intro quiet_intros)+)

lemma acks_first_test_command: "acks_first (test_command E i)"
  unfolding test_command_def Let_def by (intro acks_first_respond_then quiet_intros)

lemma acks_first_tucker_command: "acks_first (tucker_command E i)"
  unfolding tucker_command_def by (rule acks_first_catch_respond)

lemma acks_first_totd_command: "acks_first (totd_command E i)"
  unfolding totd_command_def Let_def
  by (intro acks_first_respond_then quiet_intros quiet_totd_past)

lemma acks_first_application_command: "acks_first (application_command E i)"
  unfolding application_command_def
  by (intro acks_first_if acks_first_test_command acks_first_tucker_command
      acks_first_totd_command acks_first_quiet only_emits_ok)

lemma acks_first_message_component: "acks_first (message_component E i)"
  unfolding message_component_def Let_def
  by (intro acks_first_respond_then quiet_dispatch_component)

lemma acks_first_respond: "acks_first (respond r)"
  by (auto simp: acks_first_def)

lemma acks_first_interactions_handler: "acks_first (interactions_handler E i)"
proof (cases "itype i = InteractionType_APPLICATION_COMMAND")
  case True
  then have "itype i \<noteq> InteractionType_MESSAGE_COMPONENT"
    by (simp add: interaction_types)
  with True show ?thesis
    unfolding interactions_handler_def
    by (simp add: InteractionResponseType_PING_def)
       (intro acks_first_await acks_first_application_command only_emits_ok)
next
  case False
  then show ?thesis
    unfolding interactions_handler_def
    by (simp add: InteractionResponseType_PING_def acks_first_message_component
        acks_first_quiet only_emits_ok)
qed

section \<open>Running the handler\<close>

text \<open>The equations that run the endpoint on a request of a given shape.\<close>

lemmas handler_unfold =
  post_interactions_def interactions_handler_def interaction_types application_command_def
  test_command_def tucker_command_def totd_command_def totd_past_def option_at_def
  message_component_def dispatch_component_def leaderboard_component_def track_component_def
  Let_def run_DiscordRequest

lemma classify_leaderboard_kind:
  "classify_component (a0 # rest) = ActLeaderboard k \<Longrightarrow> lb_kind_of a0 = k"
  by (simp add: classify_component_def split: if_splits)

text \<open>Sample requests for the witnesses: Discord accepts every call, the provider answers \<open>null\<close>.\<close>

abbreviation sample_env :: env where
  "sample_env \<equiv> \<lparr>provider = (\<lambda>c. Inr Null), discord = (\<lambda>m u b. Reply 200 None),
                  app_id = ''A'', utc_offset = 0\<rparr>"

abbreviation sample_world :: world where
  "sample_world \<equiv> \<lparr>files = Map.empty, now_ms = 1700000000000, trace = []\<rparr>"

abbreviation command_request :: "string \<Rightarrow> cmd_option list option \<Rightarrow> interaction" where
  "command_request n opts \<equiv>
     \<lparr>itype = 2, data_name = n, data_options = opts, custom_id = [], data_values = None,
      token = ''T'', message = \<lparr>channel_id = [], message_id = [], embeds = []\<rparr>\<rparr>"

abbreviation component_request :: "string \<Rightarrow> interaction" where
  "component_request cid \<equiv>
     \<lparr>itype = 3, data_name = [], data_options = None, custom_id = cid, data_values = None,
      token = ''T'', message = \<lparr>channel_id = ''C'', message_id = ''M'',
                               embeds = [Obj [(''author'', Obj [(''name'', Str ''Bob'')])]]\<rparr>\<rparr>"

abbreviation past_options :: "rat \<Rightarrow> rat \<Rightarrow> rat \<Rightarrow> cmd_option list option" where
  "past_options y m d \<equiv>
     Some [CmdOption ''past'' Undefined (Some [CmdOption ''year'' (Num (Fin y)) None,
                                            CmdOption ''month'' (Num (Fin m)) None,
                                            CmdOption ''day'' (Num (Fin d)) None])]"

section \<open>Properties\<close>

text \<open>
  C1. Write-once response: for every request and every behaviour of Discord, the
  data provider and the file, the endpoint sends at most one response to the
  HTTP request, and when it sends one, that response precedes every other effect
  of the handler (every PATCH, provider call and file access).
\<close>

theorem post_interactions_answers_once_first:
  "\<exists>xs. trace (snd (run_state (post_interactions E i) w)) = trace w @ xs \<and>
     (list_all no_response xs \<or> (\<exists>r ys. xs = Respond r # ys \<and> list_all no_response ys))"
proof -
  have "acks_first (post_interactions E i)"
    unfolding post_interactions_def
    by (intro acks_first_if acks_first_fire_and_forget acks_first_interactions_handler
        acks_first_respond)
  then show ?thesis unfolding acks_first_def by blast
qed

theorem post_interactions_answers_once_first_witness:
  "\<exists>xs. trace (snd (run_state (post_interactions sample_env (component_request ''cotd''))
                       sample_world)) = trace sample_world @ xs \<and>
     (list_all no_response xs \<or> (\<exists>r ys. xs = Respond r # ys \<and> list_all no_response ys))"
  by (rule post_interactions_answers_once_first)

text \<open>
  C3. Date clamp: a \<open>totd past\<close> request whose date lies after the current
  instant fetches the track of the day of the current instant, not of the
  requested date, right after the deferred acknowledgement.
\<close>

theorem totd_past_future_date_clamped:
  assumes "itype i = 2" and "data_name i = ''totd''"
    and "data_options i = Some (CmdOption ''past'' v (Some (f0 # f1 # f2 # rest)) # others)"
    and "new_Date (utc_offset E) (to_number (opt_value f0))
           (num_sub (to_number (opt_value f1)) (Fin 1)) (to_number (opt_value f2)) = Some t"
    and "now_ms w < t"
  shows "\<exists>ys. trace (snd (run_state (post_interactions E i) w)) =
           trace w @ [Respond DeferredChannelMessage,
                      Api (TrackOfTheDay (OnDate (Some (now_ms w))))] @ ys"
  using assms by (auto simp: handler_unfold split: sum.split prod.split)

theorem totd_past_future_date_clamped_witness:
  "\<exists>ys. trace (snd (run_state (post_interactions sample_env
                    (command_request ''totd'' (past_options 2030 1 1))) sample_world)) =
         trace sample_world @ [Respond DeferredChannelMessage,
                               Api (TrackOfTheDay (OnDate (Some (now_ms sample_world))))] @ ys"
  by (rule totd_past_future_date_clamped [where t = 1893456000000]) (simp add: date_eval)+

text \<open>
  C4. Date rejection, as the code does it: a \<open>totd past\<close> request dated before
  2020-07-01 (and not in the future) sends the error report, and then still
  fetches the track of the day for that date and goes on to PATCH its result
  over the report.
\<close>

theorem totd_past_early_date_reported_then_fetched:
  assumes "itype i = 2" and "data_name i = ''totd''"
    and "data_options i = Some (CmdOption ''past'' v (Some (f0 # f1 # f2 # rest)) # others)"
    and "new_Date (utc_offset E) (to_number (opt_value f0))
           (num_sub (to_number (opt_value f1)) (Fin 1)) (to_number (opt_value f2)) = Some t"
    and "t \<le> now_ms w" and "startDate (utc_offset E) = Some s" and "t < s"
  shows "\<exists>ys. trace (snd (run_state (post_interactions E i) w)) =
           trace w @ [Respond DeferredChannelMessage,
                      Http PATCH (discord_api_base @ command_endpoint E i)
                        (ErrorEmbed date_too_early back_button_id),
                      Api (TrackOfTheDay (OnDate (Some t)))] @ ys"
  using assms by (auto simp: handler_unfold split: sum.split prod.split)

theorem totd_past_early_date_reported_then_fetched_witness:
  "\<exists>ys. trace (snd (run_state (post_interactions sample_env
                    (command_request ''totd'' (past_options 2019 1 1))) sample_world)) =
         trace sample_world @
           [Respond DeferredChannelMessage,
            Http PATCH (discord_api_base @ command_endpoint sample_env (command_request ''totd'' (past_options 2019 1 1)))
              (ErrorEmbed date_too_early back_button_id),
            Api (TrackOfTheDay (OnDate (Some 1546300800000)))] @ ys"
  by (rule totd_past_early_date_reported_then_fetched [where s = 1593561600000])
     (simp add: date_eval)+

text \<open>
  C8. A \<open>totd\<close> command without options (the specification's scenario) does not
  reach the cache: after the deferred acknowledgement, \<open>options[0]\<close> throws a
  \<open>TypeError\<close> that escapes the handler, and no PATCH ever fills the response.
\<close>

theorem totd_without_options_escapes:
  assumes "itype i = 2" and "data_name i = ''totd''" and "data_options i = None"
  shows "run_state (post_interactions E i) w =
           (Inr (), w\<lparr>trace := trace w @
              [Respond DeferredChannelMessage,
               Unhandled (TypeError ''Cannot read properties of undefined (reading an index)'')]\<rparr>)"
  using assms by (simp add: handler_unfold)

theorem totd_without_options_escapes_witness:
  "run_state (post_interactions sample_env (command_request ''totd'' None)) sample_world =
     (Inr (), sample_world\<lparr>trace := trace sample_world @
        [Respond DeferredChannelMessage,
         Unhandled (TypeError ''Cannot read properties of undefined (reading an index)'')]\<rparr>)"
  by (rule totd_without_options_escapes) simp_all

text \<open>
  C9. First page of a leaderboard: a component whose identifier has the fields
  \<open>lb_f;G;M\<close> issues exactly one leaderboard fetch, for the author named in the
  message's first embed, group \<open>G\<close>, map \<open>M\<close>, and no cursor.
\<close>

theorem leaderboard_first_page_fetch:
  assumes "itype i = 3" and "custom_id_args (custom_id i) = [lead, g, m]"
    and "classify_component [lead, g, m] = ActLeaderboard LbFirst"
    and "embed_author_name (embeds (message i)) = Inr au"
  shows "\<exists>ys. trace (snd (run_state (post_interactions E i) w)) =
           trace w @ [Respond DeferredUpdateMessage,
                      Api (Leaderboard \<lparr>author = au, groupUid = Str g, mapUid = Str m\<rparr>
                             Undefined True Undefined)] @ ys
         \<and> (\<forall>c. Api c \<notin> set ys)"
  using assms classify_leaderboard_kind [OF assms(3)]
  by (auto simp: handler_unfold lb_push_args_def leaderboard_call_def split: sum.split prod.split)

theorem leaderboard_first_page_fetch_witness:
  "\<exists>ys. trace (snd (run_state (post_interactions sample_env (component_request ''lb_f;G1;M1''))
                       sample_world)) =
         trace sample_world @ [Respond DeferredUpdateMessage,
            Api (Leaderboard \<lparr>author = Str ''Bob'', groupUid = Str ''G1'', mapUid = Str ''M1''\<rparr>
                   Undefined True Undefined)] @ ys
       \<and> (\<forall>c. Api c \<notin> set ys)"
  by (rule leaderboard_first_page_fetch [where lead = "''lb_f''"])
     (simp_all add: custom_id_args_def classify_component_def lb_kind_of_def embed_author_name_def)

text \<open>
  C10. Last page of a leaderboard: the cursor is \<open>1000 - args[2]\<close>, the number
  the map field converts to subtracted from the fixed ceiling 1000; the count the
  specification packs into the leading token (\<open>lb_l_250\<close>) is never read.
\<close>

theorem leaderboard_last_page_cursor:
  assumes "itype i = 3" and "custom_id_args (custom_id i) = [lead, g, m]"
    and "classify_component [lead, g, m] = ActLeaderboard LbLast"
    and "embed_author_name (embeds (message i)) = Inr au"
  shows "\<exists>ys. trace (snd (run_state (post_interactions E i) w)) =
           trace w @ [Respond DeferredUpdateMessage,
                      Api (Leaderboard \<lparr>author = au, groupUid = Str g, mapUid = Str m\<rparr>
                             (Num (num_sub (Fin 1000) (str_to_number m))) True Undefined)] @ ys"
  using assms classify_leaderboard_kind [OF assms(3)]
  by (auto simp: handler_unfold lb_push_args_def leaderboard_call_def split: sum.split prod.split)

theorem leaderboard_last_page_cursor_witness:
  "\<exists>ys. trace (snd (run_state (post_interactions sample_env (component_request ''lb_l_250;G1;M1''))
                       sample_world)) =
         trace sample_world @ [Respond DeferredUpdateMessage,
            Api (Leaderboard \<lparr>author = Str ''Bob'', groupUid = Str ''G1'', mapUid = Str ''M1''\<rparr>
                   (Num NaN) True Undefined)] @ ys"
proof -
  have "num_sub (Fin 1000) (str_to_number ''M1'') = NaN"
    by (simp add: str_to_number_unfold)
  moreover have "\<exists>ys. trace (snd (run_state (post_interactions sample_env
                    (component_request ''lb_l_250;G1;M1'')) sample_world)) =
         trace sample_world @ [Respond DeferredUpdateMessage,
            Api (Leaderboard \<lparr>author = Str ''Bob'', groupUid = Str ''G1'', mapUid = Str ''M1''\<rparr>
                   (Num (num_sub (Fin 1000) (str_to_number ''M1''))) True Undefined)] @ ys"
    by (rule leaderboard_last_page_cursor [where lead = "''lb_l_250''"])
       (simp_all add: custom_id_args_def classify_component_def lb_kind_of_def embed_author_name_def)
  ultimately show ?thesis by simp
qed

text \<open>
  C14. A component whose identifier's leading token is none of \<open>test\<close>,
  \<open>cotd\<close>, \<open>lb...\<close> or \<open>track\<close> is acknowledged and nothing else happens. The
  buttons the bot builds itself are such components: the error embed's Back
  button (\<open>back\<close>) and the test embed's button (\<open>test_button\<close>, which is not
  \<open>test\<close>) do nothing when clicked.
\<close>

theorem unrecognized_component_only_acknowledged:
  assumes "itype i = 3" and "classify_component (custom_id_args (custom_id i)) = ActUnrecognized"
  shows "run_state (post_interactions E i) w =
           (Inr (), w\<lparr>trace := trace w @ [Respond DeferredUpdateMessage]\<rparr>)"
  using assms by (simp add: handler_unfold)

theorem unrecognized_component_only_acknowledged_witness:
  "run_state (post_interactions sample_env (component_request back_button_id)) sample_world =
     (Inr (), sample_world\<lparr>trace := trace sample_world @ [Respond DeferredUpdateMessage]\<rparr>)
   \<and> run_state (post_interactions sample_env (component_request test_button_id)) sample_world =
     (Inr (), sample_world\<lparr>trace := trace sample_world @ [Respond DeferredUpdateMessage]\<rparr>)"
proof
  show "run_state (post_interactions sample_env (component_request back_button_id)) sample_world =
     (Inr (), sample_world\<lparr>trace := trace sample_world @ [Respond DeferredUpdateMessage]\<rparr>)"
    by (rule unrecognized_component_only_acknowledged)
       (simp_all add: back_button_id_def custom_id_args_def classify_component_def)
  show "run_state (post_interactions sample_env (component_request test_button_id)) sample_world =
     (Inr (), sample_world\<lparr>trace := trace sample_world @ [Respond DeferredUpdateMessage]\<rparr>)"
    by (rule unrecognized_component_only_acknowledged)
       (simp_all add: test_button_id_def custom_id_args_def classify_component_def)
qed

text \<open>
  C16. A failed leaderboard fetch is not reported: the call's rejection escapes
  the handler (the \<open>.catch\<close> is attached to the PATCH, whose body is awaited
  first), no PATCH is sent and the acknowledged message stays as it was.
\<close>

theorem leaderboard_fetch_failure_unhandled:
  assumes "itype i = 3"
    and "classify_component (custom_id_args (custom_id i)) = ActLeaderboard k"
    and "lb_push_args (custom_id_args (custom_id i)) (data_values i) = Inr args'"
    and "embed_author_name (embeds (message i)) = Inr au"
    and "provider E (leaderboard_call au args') = Inl e"
  shows "run_state (post_interactions E i) w =
           (Inr (), w\<lparr>trace := trace w @ [Respond DeferredUpdateMessage,
                                          Api (leaderboard_call au args'), Unhandled e]\<rparr>)"
  using assms by (simp add: handler_unfold)

theorem leaderboard_fetch_failure_unhandled_witness:
  "run_state (post_interactions (sample_env\<lparr>provider := (\<lambda>c. Inl (ProviderError ''timeout''))\<rparr>)
       (component_request ''lb_f;G1;M1'')) sample_world =
     (Inr (), sample_world\<lparr>trace := trace sample_world @
        [Respond DeferredUpdateMessage,
         Api (leaderboard_call (Str ''Bob'') [Str ''lb_f'', Str ''G1'', Str ''M1'', Undefined]),
         Unhandled (ProviderError ''timeout'')]\<rparr>)"
  by (rule leaderboard_fetch_failure_unhandled [where k = LbFirst])
     (simp add: custom_id_args_def classify_component_def lb_kind_of_def lb_push_args_def
        embed_author_name_def)+

text \<open>
  C17. The \<open>test\<close> command never lets a failure escape and reports exactly the
  failures: after the deferred acknowledgement it PATCHes the demonstration embed;
  when Discord accepts it nothing follows, and otherwise exactly one error embed
  carrying that request's rejection is PATCHed to the same endpoint.
\<close>

theorem test_command_failures_reported:
  assumes "itype i = 2" and "data_name i = ''test''"
    and "url = discord_api_base @ command_endpoint E i"
    and "r = discord E PATCH url (DemoEmbed test_button_id)"
  shows "run_state (post_interactions E i) w =
           (Inr (), w\<lparr>trace := trace w @
              [Respond DeferredChannelMessage, Http PATCH url (DemoEmbed test_button_id)] @
              (if http_ok r then [] else [Http PATCH url (ErrorEmbed (reply_error r) back_button_id)])\<rparr>)"
  using assms by (simp add: handler_unfold reply_error_def)

theorem test_command_failures_reported_witness:
  "run_state (post_interactions (sample_env\<lparr>discord := (\<lambda>m u b. Reply 500 None)\<rparr>)
       (command_request ''test'' None)) sample_world =
     (Inr (), sample_world\<lparr>trace := trace sample_world @
        [Respond DeferredChannelMessage,
         Http PATCH (discord_api_base @ ''webhooks/A/T/messages/@original'') (DemoEmbed test_button_id),
         Http PATCH (discord_api_base @ ''webhooks/A/T/messages/@original'')
           (ErrorEmbed SyntaxError back_button_id)]\<rparr>)"
  using test_command_failures_reported [of "command_request ''test'' None"
      "discord_api_base @ ''webhooks/A/T/messages/@original''"
      "sample_env\<lparr>discord := (\<lambda>m u b. Reply 500 None)\<rparr>" "Reply 500 None" sample_world]
  by (simp add: command_endpoint_def http_ok_def reply_error_def)

text \<open>
  C18. The handler's own PING branch is dead: it compares the request type with
  \<open>InteractionResponseType.PING\<close>, which does not exist, so a PING reaching the
  handler would get no answer at all. PINGs are answered PONG by
  \<open>verifyKeyMiddleware\<close> before the handler runs.
\<close>

theorem ping_answered_by_middleware_only:
  assumes "itype i = InteractionType_PING"
  shows "run_state (interactions_handler E i) w = (Inr (), w)
         \<and> run_state (post_interactions E i) w = (Inr (), w\<lparr>trace := trace w @ [Respond Pong]\<rparr>)"
  using assms by (simp add: handler_unfold)

theorem ping_answered_by_middleware_only_witness:
  "run_state (interactions_handler sample_env (command_request [] None\<lparr>itype := 1\<rparr>)) sample_world
     = (Inr (), sample_world)
   \<and> run_state (post_interactions sample_env (command_request [] None\<lparr>itype := 1\<rparr>)) sample_world
     = (Inr (), sample_world\<lparr>trace := trace sample_world @ [Respond Pong]\<rparr>)"
  by (rule ping_answered_by_middleware_only) (simp add: interaction_types)

text \<open>
  C19. The \<open>track\<close> button: the code asks the provider for the track under the
  label \<open>Track of the Day - args[4]\<close> (when \<open>args[1]\<close> is \<open>totd\<close>) or \<open>Map
  Search\<close>; when embedding it fails, the error report is PATCHed and then the
  message is PATCHed a second time with no body, after the report.
\<close>

theorem track_embed_failure_patches_twice:
  assumes "itype i = 3" and "custom_id_args (custom_id i) = args"
    and "classify_component args = ActTrack"
    and "provider E (GetTrackInfo (track_label args) (js_at (map Str args) 2)
                       (js_at (map Str args) 3)) = Inr t"
    and "provider E (EmbedTrackInfo t) = Inl e"
  shows "\<exists>ys. trace (snd (run_state (post_interactions E i) w)) =
           trace w @ [Respond DeferredUpdateMessage,
                      Api (GetTrackInfo (track_label args) (js_at (map Str args) 2) (js_at (map Str args) 3)),
                      Api (EmbedTrackInfo t),
                      Http PATCH (discord_api_base @ component_endpoint i) (ErrorEmbed e back_button_id),
                      Http PATCH (discord_api_base @ component_endpoint i) NoBody] @ ys"
  using assms by (auto simp: handler_unfold request_body_def split: sum.split prod.split)

theorem track_embed_failure_patches_twice_witness:
  "\<exists>ys. trace (snd (run_state (post_interactions
            (sample_env\<lparr>provider := (\<lambda>c. case c of EmbedTrackInfo _ \<Rightarrow> Inl (ProviderError ''embed'')
                                               | _ \<Rightarrow> Inr (Str ''track''))\<rparr>)
            (component_request ''track;totd;MAP;x;2024-01-01'')) sample_world)) =
         trace sample_world @ [Respond DeferredUpdateMessage,
            Api (GetTrackInfo ''Track of the Day - 2024-01-01'' (Str ''MAP'') (Str ''x'')),
            Api (EmbedTrackInfo (Str ''track'')),
            Http PATCH (discord_api_base @ ''channels/C/messages/M'') (ErrorEmbed (ProviderError ''embed'') back_button_id),
            Http PATCH (discord_api_base @ ''channels/C/messages/M'') NoBody] @ ys"
proof -
  have lbl: "track_label [''track'', ''totd'', ''MAP'', ''x'', ''2024-01-01''] = ''Track of the Day - 2024-01-01''"
    by (simp add: track_label_def)
  have "\<exists>ys. trace (snd (run_state (post_interactions
            (sample_env\<lparr>provider := (\<lambda>c. case c of EmbedTrackInfo _ \<Rightarrow> Inl (ProviderError ''embed'')
                                               | _ \<Rightarrow> Inr (Str ''track''))\<rparr>)
            (component_request ''track;totd;MAP;x;2024-01-01'')) sample_world)) =
         trace sample_world @ [Respond DeferredUpdateMessage,
            Api (GetTrackInfo (track_label [''track'', ''totd'', ''MAP'', ''x'', ''2024-01-01''])
                   (js_at (map Str [''track'', ''totd'', ''MAP'', ''x'', ''2024-01-01'']) 2)
                   (js_at (map Str [''track'', ''totd'', ''MAP'', ''x'', ''2024-01-01'']) 3)),
            Api (EmbedTrackInfo (Str ''track'')),
            Http PATCH (discord_api_base @ component_endpoint (component_request ''track;totd;MAP;x;2024-01-01''))
              (ErrorEmbed (ProviderError ''embed'') back_button_id),
            Http PATCH (discord_api_base @ component_endpoint (component_request ''track;totd;MAP;x;2024-01-01''))
              NoBody] @ ys"
    by (rule track_embed_failure_patches_twice)
       (simp add: custom_id_args_def classify_component_def)+
  then show ?thesis by (simp add: lbl component_endpoint_def)
qed

text \<open>
  C27. The \<open>cotd\<close> button fetches the cup of the day and drops the result: after
  the acknowledgement there is the provider call and nothing else, so the message
  is never updated; a failure of the call escapes the handler unhandled.
\<close>

theorem cotd_button_result_discarded:
  assumes "itype i = 3" and "classify_component (custom_id_args (custom_id i)) = ActCotd"
  shows "run_state (post_interactions E i) w =
           (Inr (), w\<lparr>trace := trace w @ [Respond DeferredUpdateMessage, Api CupOfTheDay] @
                        (case provider E CupOfTheDay of Inl e \<Rightarrow> [Unhandled e] | Inr _ \<Rightarrow> [])\<rparr>)"
  using assms by (simp add: handler_unfold split: sum.split)

theorem cotd_button_result_discarded_witness:
  "run_state (post_interactions sample_env (component_request ''cotd'')) sample_world =
     (Inr (), sample_world\<lparr>trace := trace sample_world @ [Respond DeferredUpdateMessage, Api CupOfTheDay] @
        (case provider sample_env CupOfTheDay of Inl e \<Rightarrow> [Unhandled e] | Inr _ \<Rightarrow> [])\<rparr>)"
  by (rule cotd_button_result_discarded) (simp_all add: custom_id_args_def classify_component_def)

text \<open>
  C28. \<open>tucker\<close> is answered at once, not deferred, with the fixed ephemeral
  message (visible only to the requester), and nothing else happens.
\<close>

theorem tucker_replies_directly:
  assumes "itype i = 2" and "data_name i = ''tucker''"
  shows "run_state (post_interactions E i) w =
           (Inr (), w\<lparr>trace := trace w @ [Respond (ChannelMessage ''i miss him <@203284058673774592>'' True)]\<rparr>)"
  using assms by (simp add: handler_unfold tucker_content_def)

theorem tucker_replies_directly_witness:
  "run_state (post_interactions sample_env (command_request ''tucker'' None)) sample_world =
     (Inr (), sample_world\<lparr>trace := trace sample_world @
        [Respond (ChannelMessage ''i miss him <@203284058673774592>'' True)]\<rparr>)"
  by (rule tucker_replies_directly) simp_all

end
