(* ===== verification/Scheduler.thy ===== *)
theory Scheduler
  imports Router
begin

text \<open>
  The daily job of \<open>src/app.js\<close> (\<open>daily_totd\<close>): \<open>schedule.scheduleJob('0 13 * * *', ...)\<close>
  runs, every day at 13:00 local time, an async function that fetches the track
  of the day from the data provider and POSTs it to the fixed channel
  \<open>totd_channel\<close>. The cron rule is a minute and an hour (the three other fields
  of the expression are \<open>*\<close>); local time is UTC plus the environment's fixed
  offset, as in \<open>Dates\<close>. \<open>next_fire\<close> is the first instant strictly after a given
  one at which the rule fires, as \<open>node-schedule\<close> computes the next invocation;
  \<open>run_scheduler\<close> lets the timer fire a given number of times with no other
  event in between, and leaves a rejection of the job unhandled, since the
  program attaches no handler to it.
\<close>

section \<open>The cron rule\<close>

record cron_rule =
  cron_minute :: int
  cron_hour :: int

definition daily_totd_rule :: cron_rule where
  "daily_totd_rule = \<lparr>cron_minute = 0, cron_hour = 13\<rparr>"

definition cron_wf :: "cron_rule \<Rightarrow> bool" where
  "cron_wf r \<longleftrightarrow> 0 \<le> cron_minute r \<and> cron_minute r < 60 \<and> 0 \<le> cron_hour r \<and> cron_hour r < 24"

definition fire_offset :: "cron_rule \<Rightarrow> int" where
  "fire_offset r = cron_hour r * 3600000 + cron_minute r * 60000"

text \<open>\<open>fires_at r off t\<close>: the local time of the instant \<open>t\<close> (milliseconds) is the rule's minute.\<close>

definition fires_at :: "cron_rule \<Rightarrow> int \<Rightarrow> int \<Rightarrow> bool" where
  "fires_at r off t \<longleftrightarrow> (t + off) mod ms_per_day = fire_offset r"

definition next_fire :: "cron_rule \<Rightarrow> int \<Rightarrow> int \<Rightarrow> int" where
  "next_fire r off t =
     (let d = (fire_offset r - (t + off)) mod ms_per_day
      in t + (if d = 0 then ms_per_day else d))"

section \<open>The job\<close>

definition totd_channel :: string where
  "totd_channel = ''1183478764856942642''"

definition totd_channel_endpoint :: string where
  "totd_channel_endpoint = ''channels/'' @ totd_channel @ ''/messages''"

definition daily_totd :: "env \<Rightarrow> unit io" where
  "daily_totd E =
     await (call E (TrackOfTheDay Today)) (\<lambda>body.
     DiscordRequest E totd_channel_endpoint POST (request_body body))"

section \<open>The timer\<close>

definition set_clock :: "int \<Rightarrow> unit io" where
  "set_clock t = State (\<lambda>w. (Inr (), w\<lparr>now_ms := t\<rparr>))"

primrec run_scheduler :: "env \<Rightarrow> nat \<Rightarrow> unit io" where
  "run_scheduler E 0 = ok ()"
| "run_scheduler E (Suc n) =
     await clock (\<lambda>t.
     await (set_clock (next_fire daily_totd_rule (utc_offset E) t)) (\<lambda>_.
     await (fire_and_forget (daily_totd E)) (\<lambda>_.
     run_scheduler E n)))"

text \<open>The effects of one firing, in order: the provider call, the POST when the
  call succeeded, and the rejection the program leaves unhandled.\<close>

definition daily_effects :: "env \<Rightarrow> effect list" where
  "daily_effects E =
     Api (TrackOfTheDay Today) #
     (case provider E (TrackOfTheDay Today) of
        Inl e \<Rightarrow> [Unhandled e]
      | Inr b \<Rightarrow>
          (let url = discord_api_base @ totd_channel_endpoint;
               r = discord E POST url (request_body b)
           in Http POST url (request_body b) # (if http_ok r then [] else [Unhandled (reply_error r)])))"

section \<open>Lemmas\<close>

lemma ms_per_day_pos: "0 < ms_per_day"
  by (simp add: ms_per_day_def)

lemma fire_offset_range: "cron_wf r \<Longrightarrow> 0 \<le> fire_offset r \<and> fire_offset r < ms_per_day"
  by (simp add: cron_wf_def fire_offset_def ms_per_day_def)

lemma next_fire_after: "t < next_fire r off t"
  using ms_per_day_pos by (simp add: next_fire_def Let_def order_le_neq_trans)

lemma next_fire_le: "next_fire r off t \<le> t + ms_per_day"
  using ms_per_day_pos by (simp add: next_fire_def Let_def order_less_imp_le)

lemma mod_add_diff_cancel: "((a::int) + (F - a) mod D) mod D = F mod D"
  by (simp add: mod_simps)

lemma next_fire_fires:
  assumes "cron_wf r" shows "fires_at r off (next_fire r off t)"
proof -
  have F: "fire_offset r mod ms_per_day = fire_offset r"
    using fire_offset_range [OF assms] by simp
  have "(t + off + (fire_offset r - (t + off)) mod ms_per_day) mod ms_per_day = fire_offset r"
    using mod_add_diff_cancel F by simp
  moreover have "(fire_offset r - (t + off)) mod ms_per_day = 0 \<Longrightarrow>
                 (t + off + ms_per_day) mod ms_per_day = fire_offset r"
    using mod_add_diff_cancel [of "t + off" "fire_offset r" ms_per_day] F by simp
  ultimately show ?thesis
    by (simp add: fires_at_def next_fire_def Let_def ac_simps)
qed

lemma next_fire_least:
  assumes "t < t'" and "t' < next_fire r off t"
  shows "\<not> fires_at r off t'"
proof
  assume f: "fires_at r off t'"
  define k where "k = t' - t"
  have k: "0 < k" "k < ms_per_day"
    using assms next_fire_le [of r off t] by (auto simp: k_def)
  have "(t + off + k) mod ms_per_day = fire_offset r"
    using f by (simp add: fires_at_def k_def ac_simps)
  hence "((t + off + k) mod ms_per_day - (t + off)) mod ms_per_day
           = (fire_offset r - (t + off)) mod ms_per_day"
    by simp
  hence "(t + off + k - (t + off)) mod ms_per_day = (fire_offset r - (t + off)) mod ms_per_day"
    by (simp only: mod_diff_left_eq)
  hence "k = (fire_offset r - (t + off)) mod ms_per_day" using k by simp
  then show False using assms(2) k by (auto simp: next_fire_def Let_def k_def split: if_splits)
qed

lemma next_fire_periodic:
  assumes "fires_at r off t" shows "next_fire r off t = t + ms_per_day"
proof -
  have "(fire_offset r - (t + off)) mod ms_per_day = 0"
    using assms by (simp add: fires_at_def mod_diff_right_eq [symmetric])
  then show ?thesis by (simp add: next_fire_def)
qed

lemma funpow_next_fire:
  assumes "cron_wf r"
  shows "(next_fire r off ^^ Suc n) t = next_fire r off t + int n * ms_per_day"
proof (induction n)
  case 0 then show ?case by simp
next
  case (Suc n)
  have "fires_at r off ((next_fire r off ^^ Suc n) t)"
    using next_fire_fires [OF assms, of off "(next_fire r off ^^ n) t"] by simp
  then have "(next_fire r off ^^ Suc (Suc n)) t = (next_fire r off ^^ Suc n) t + ms_per_day"
    by (simp only: funpow.simps(2) comp_apply next_fire_periodic)
  with Suc.IH show ?case by (simp add: algebra_simps)
qed

lemma run_daily_totd:
  "run_state (fire_and_forget (daily_totd E)) w = (Inr (), w\<lparr>trace := trace w @ daily_effects E\<rparr>)"
  by (simp add: daily_totd_def daily_effects_def run_DiscordRequest reply_error_def Let_def
      split: sum.split)

lemma run_set_clock [simp]: "run_state (set_clock t) w = (Inr (), w\<lparr>now_ms := t\<rparr>)"
  by (simp add: set_clock_def)

lemma run_run_scheduler:
  "run_state (run_scheduler E n) w =
     (Inr (), w\<lparr>now_ms := (next_fire daily_totd_rule (utc_offset E) ^^ n) (now_ms w),
                trace := trace w @ concat (replicate n (daily_effects E))\<rparr>)"
proof (induction n arbitrary: w)
  case 0 then show ?case by simp
next
  case (Suc n)
  then show ?case by (simp del: run_fire_and_forget add: run_daily_totd funpow_swap1)
qed

lemma cron_wf_daily_totd_rule [simp]: "cron_wf daily_totd_rule"
  by (simp add: cron_wf_def daily_totd_rule_def)

section \<open>Properties\<close>

lemma fires_at_daily_totd_rule:
  "fires_at daily_totd_rule off t \<longleftrightarrow> (t + off) mod 86400000 = 46800000"
  by (simp add: fires_at_def fire_offset_def daily_totd_rule_def ms_per_day_def)

lemma next_fire_daily_totd_rule:
  "fires_at daily_totd_rule off (next_fire daily_totd_rule off t)
   \<and> t < next_fire daily_totd_rule off t
   \<and> (\<forall>t'. t < t' \<and> t' < next_fire daily_totd_rule off t \<longrightarrow> \<not> fires_at daily_totd_rule off t')
   \<and> next_fire daily_totd_rule off (next_fire daily_totd_rule off t)
       = next_fire daily_totd_rule off t + ms_per_day"
  by (auto simp: next_fire_fires next_fire_after next_fire_periodic dest: next_fire_least)

text \<open>
  C21. The job of \<open>schedule.scheduleJob('0 13 * * *', ...)\<close> fires at 13:00:00.000
  local time, once a day: the next firing after any instant \<open>t\<close> lies after \<open>t\<close>
  and is 46 800 000 ms after a local midnight, no instant strictly between \<open>t\<close>
  and it is at 13:00 local time, and the following firing is exactly one day
  (86 400 000 ms) later.
\<close>

theorem daily_totd_fires_at_13_local:
  "(next_fire daily_totd_rule off t + off) mod 86400000 = 46800000
   \<and> t < next_fire daily_totd_rule off t
   \<and> (\<forall>t'. t < t' \<and> t' < next_fire daily_totd_rule off t \<longrightarrow> (t' + off) mod 86400000 \<noteq> 46800000)
   \<and> next_fire daily_totd_rule off (next_fire daily_totd_rule off t)
       = next_fire daily_totd_rule off t + 86400000"
  using next_fire_daily_totd_rule [of off t]
  unfolding fires_at_daily_totd_rule ms_per_day_def by blast

theorem daily_totd_fires_at_13_local_witness:
  "next_fire daily_totd_rule 0 1700000000000 = 1700053200000
   \<and> next_fire daily_totd_rule 0 1700053200000 = 1700139600000"
proof -
  have v: "next_fire daily_totd_rule 0 1700000000000 = 1700053200000"
    by (simp add: next_fire_def fire_offset_def daily_totd_rule_def ms_per_day_def)
  from daily_totd_fires_at_13_local [of 0 1700000000000]
  have "next_fire daily_totd_rule 0 1700053200000 = 1700053200000 + 86400000"
    unfolding v by blast
  with v show ?thesis by simp
qed

text \<open>
  C22. The scheduled job calls the data provider for today's track and POSTs
  what it returns, as it is, to the fixed channel
  \<open>channels/1183478764856942642/messages\<close>. It neither reads nor writes the
  cache file and sends no interaction response; when the provider fails nothing is
  posted, and the job rejects.
\<close>

theorem daily_totd_posts_provider_output:
  "run_state (daily_totd E) w =
     (case provider E (TrackOfTheDay Today) of
        Inl e \<Rightarrow> (Inl e, w\<lparr>trace := trace w @ [Api (TrackOfTheDay Today)]\<rparr>)
      | Inr b \<Rightarrow>
          (if http_ok (discord E POST ''https://discord.com/api/v10/channels/1183478764856942642/messages''
                        (request_body b))
           then Inr ()
           else Inl (reply_error (discord E POST
                  ''https://discord.com/api/v10/channels/1183478764856942642/messages'' (request_body b))),
           w\<lparr>trace := trace w @ [Api (TrackOfTheDay Today),
               Http POST ''https://discord.com/api/v10/channels/1183478764856942642/messages''
                 (request_body b)]\<rparr>))"
  by (simp add: daily_totd_def totd_channel_endpoint_def totd_channel_def discord_api_base_def
      run_DiscordRequest reply_error_def split: sum.split)

end
