(* ===== verification/Cache_Race.thy ===== *)
theory Cache_Race
  imports Cache
begin

text \<open>
  Concurrent users of the track-of-the-day cache. \<open>getUpToDateTOTDInfo\<close> of
  \<open>src/app.js\<close> suspends at each \<open>await\<close>: the first read, the wait for the
  callback together with the write, and the read-back. Two interactions handled at
  once can interleave there, with no lock on \<open>totd.json\<close>. A task is the program
  counter of one call and the record its callback resolves to. The system is the
  file map, the tasks, and the log of the records written. \<open>cache_step p now\<close>
  lets one task take its next step at the instant \<open>now\<close>. Writes are atomic here;
  a read that overlaps a write in progress is not modelled.
\<close>

datatype cache_pc = Reading | Recomputing | Rereading | Returned jsval

type_synonym cache_task = "cache_pc \<times> jsval"

type_synonym cache_sys = "(string \<rightharpoonup> file_content) \<times> cache_task list \<times> jsval list"

inductive cache_step :: "string \<Rightarrow> int \<Rightarrow> cache_sys \<Rightarrow> cache_sys \<Rightarrow> bool" for p now where
  read_fresh:
    "i < length ts \<Longrightarrow> ts ! i = (Reading, d) \<Longrightarrow> fs p = Some (JsonText j) \<Longrightarrow> fresh_at now j \<Longrightarrow>
     cache_step p now (fs, ts, ws) (fs, ts[i := (Returned j, d)], ws)"
| read_stale:
    "i < length ts \<Longrightarrow> ts ! i = (Reading, d) \<Longrightarrow> fs p = Some (JsonText j) \<Longrightarrow> stale_at now j \<Longrightarrow>
     cache_step p now (fs, ts, ws) (fs, ts[i := (Recomputing, d)], ws)"
| write_record:
    "i < length ts \<Longrightarrow> ts ! i = (Recomputing, d) \<Longrightarrow> json_value d = Some v \<Longrightarrow>
     cache_step p now (fs, ts, ws) (fs(p \<mapsto> JsonText v), ts[i := (Rereading, d)], ws @ [v])"
| reread:
    "i < length ts \<Longrightarrow> ts ! i = (Rereading, d) \<Longrightarrow> fs p = Some (JsonText j) \<Longrightarrow>
     cache_step p now (fs, ts, ws) (fs, ts[i := (Returned j, d)], ws)"

inductive_cases cache_stepE: "cache_step p now s s'"

text \<open>Tasks that have just been started, one per callback value.\<close>

definition started :: "jsval list \<Rightarrow> cache_task list" where
  "started ds = map (\<lambda>d. (Reading, d)) ds"

text \<open>
  The invariant of the interleaved runs when every callback resolves to a record
  fresh at \<open>now\<close> (the assumption of the specification's staleness
  monotonicity): until someone writes, the file holds the record found at the
  start; once someone has written, it holds a fresh record; a task re-reads only
  after a write; every task that returned holds a fresh record.
\<close>

definition fresh_inv :: "string \<Rightarrow> int \<Rightarrow> jsval \<Rightarrow> cache_sys \<Rightarrow> bool" where
  "fresh_inv p now j0 s =
     (case s of (fs, ts, ws) \<Rightarrow>
        (ws = [] \<and> fs p = Some (JsonText j0) \<or> (\<exists>j. fs p = Some (JsonText j) \<and> fresh_at now j))
        \<and> (\<forall>t \<in> set ts. fst t = Rereading \<longrightarrow> ws \<noteq> [])
        \<and> (\<forall>t \<in> set ts. \<forall>r. fst t = Returned r \<longrightarrow> fresh_at now r)
        \<and> (\<forall>t \<in> set ts. fresh_record now (snd t)))"

section \<open>Lemmas\<close>


lemma set_update_memI: "t \<in> set (xs[i := x]) \<Longrightarrow> t = x \<or> t \<in> set xs"
  using set_update_subset_insert by fastforce

lemma fresh_inv_step:
  assumes "cache_step p now s s'" and "fresh_inv p now j0 s"
  shows "fresh_inv p now j0 s'"
  using assms
proof (induction rule: cache_step.induct)
  case (read_fresh i ts d fs j ws)
  then have "fresh_record now d" by (auto simp: fresh_inv_def dest!: nth_mem)
  with read_fresh show ?case by (auto simp: fresh_inv_def dest!: set_update_memI)
next
  case (read_stale i ts d fs j ws)
  then have "fresh_record now d" by (auto simp: fresh_inv_def dest!: nth_mem)
  with read_stale show ?case by (auto simp: fresh_inv_def dest!: set_update_memI)
next
  case (write_record i ts d v fs ws)
  then have fr: "fresh_record now d" by (auto simp: fresh_inv_def dest!: nth_mem)
  with write_record have "fresh_at now v" by (blast intro: fresh_record_json_value)
  with write_record fr show ?case by (auto simp: fresh_inv_def dest!: set_update_memI)
next
  case (reread i ts d fs j ws)
  then have fr: "fresh_record now d" and "ws \<noteq> []" by (fastforce simp: fresh_inv_def dest!: nth_mem)+
  with reread have "fresh_at now j" by (auto simp: fresh_inv_def)
  with reread fr show ?case by (auto simp: fresh_inv_def dest!: set_update_memI)
qed

lemma fresh_inv_steps:
  "(cache_step p now)\<^sup>*\<^sup>* s s' \<Longrightarrow> fresh_inv p now j0 s \<Longrightarrow> fresh_inv p now j0 s'"
  by (induction rule: rtranclp_induct) (auto intro: fresh_inv_step)

lemma fresh_inv_started:
  "fs p = Some (JsonText j0) \<Longrightarrow> \<forall>d \<in> set ds. fresh_record now d \<Longrightarrow>
   fresh_inv p now j0 (fs, started ds, [])"
  by (auto simp: fresh_inv_def started_def)

lemma cache_step_read_stale_at:
  "i < length ts \<Longrightarrow> ts ! i = (Reading, d) \<Longrightarrow> fs p = Some (JsonText j) \<Longrightarrow> stale_at now j \<Longrightarrow>
   ts' = ts[i := (Recomputing, d)] \<Longrightarrow> cache_step p now (fs, ts, ws) (fs, ts', ws)"
  by (simp add: cache_step.read_stale)

lemma cache_step_read_fresh_at:
  "i < length ts \<Longrightarrow> ts ! i = (Reading, d) \<Longrightarrow> fs p = Some (JsonText j) \<Longrightarrow> fresh_at now j \<Longrightarrow>
   ts' = ts[i := (Returned j, d)] \<Longrightarrow> cache_step p now (fs, ts, ws) (fs, ts', ws)"
  by (simp add: cache_step.read_fresh)

lemma cache_step_write_at:
  "i < length ts \<Longrightarrow> ts ! i = (Recomputing, d) \<Longrightarrow> json_value d = Some v \<Longrightarrow>
   ts' = ts[i := (Rereading, d)] \<Longrightarrow> fs' = fs(p \<mapsto> JsonText v) \<Longrightarrow> ws' = ws @ [v] \<Longrightarrow>
   cache_step p now (fs, ts, ws) (fs', ts', ws')"
  by (simp add: cache_step.write_record)

lemma cache_step_reread_at:
  "i < length ts \<Longrightarrow> ts ! i = (Rereading, d) \<Longrightarrow> fs p = Some (JsonText j) \<Longrightarrow>
   ts' = ts[i := (Returned j, d)] \<Longrightarrow> cache_step p now (fs, ts, ws) (fs, ts', ws)"
  by (simp add: cache_step.reread)

lemmas cache_step_at = cache_step_read_stale_at cache_step_read_fresh_at cache_step_write_at
  cache_step_reread_at

section \<open>Properties\<close>

text \<open>
  C23. Staleness monotonicity under every interleaving: when each caller's
  recompute function resolves to a record fresh at \<open>now\<close>, then however any
  number of concurrent calls interleave at their \<open>await\<close>s, every call that has
  returned holds a record fresh at \<open>now\<close>. Once anyone has written, the file holds
  a fresh record. Writes are atomic in the model; a read overlapping a real
  \<open>writeFile\<close> in progress sees a truncated text and rejects with a
  \<open>SyntaxError\<close> instead of returning.
\<close>

theorem concurrent_callers_return_fresh:
  assumes "fs p = Some (JsonText j0)" and "\<forall>d \<in> set ds. fresh_record now d"
    and "(cache_step p now)\<^sup>*\<^sup>* (fs, started ds, []) (fs', ts', ws')"
  shows "(\<forall>t \<in> set ts'. \<forall>r. fst t = Returned r \<longrightarrow> fresh_at now r)
         \<and> (ws' \<noteq> [] \<longrightarrow> (\<exists>j. fs' p = Some (JsonText j) \<and> fresh_at now j))"
  using fresh_inv_steps [OF assms(3) fresh_inv_started [where fs = fs and p = p and ds = ds and now = now, OF assms(1,2)]]
  by (auto simp: fresh_inv_def)

theorem concurrent_callers_return_fresh_witness:
  "fresh_at 200000 (Obj [(''endTimestamp'', Num (Fin 300))])"
proof -
  let ?j0 = "Obj [(''endTimestamp'', Num (Fin 100))]" and ?d = "Obj [(''endTimestamp'', Num (Fin 300))]"
  let ?fs = "[''totd.json'' \<mapsto> JsonText ?j0]" and ?fs' = "[''totd.json'' \<mapsto> JsonText ?d]"
  have 1: "cache_step ''totd.json'' 200000 (?fs, started [?d], []) (?fs, [(Recomputing, ?d)], [])"
    by (rule cache_step_read_stale_at [where i = 0 and j = ?j0])
       (simp_all add: started_def stale_at_def now_seconds_def)
  have 2: "cache_step ''totd.json'' 200000 (?fs, [(Recomputing, ?d)], []) (?fs', [(Rereading, ?d)], [?d])"
    by (rule cache_step_write_at [where i = 0 and v = ?d]) simp_all
  have 3: "cache_step ''totd.json'' 200000 (?fs', [(Rereading, ?d)], [?d]) (?fs', [(Returned ?d, ?d)], [?d])"
    by (rule cache_step_reread_at [where i = 0 and j = ?d]) simp_all
  from 1 2 3 have run: "(cache_step ''totd.json'' 200000)\<^sup>*\<^sup>* (?fs, started [?d], [])
                          (?fs', [(Returned ?d, ?d)], [?d])"
    by (meson converse_rtranclp_into_rtranclp rtranclp.rtrancl_refl)
  have "\<forall>d \<in> set [?d]. fresh_record 200000 d" by (simp add: fresh_record_def)
  from concurrent_callers_return_fresh [OF _ this run] show ?thesis by simp
qed

text \<open>
  C24. The race the specification names: when two users find the same stale
  record, both call their recompute function and both write, the last writer
  wins, and the first user, reading back, receives the second user's record rather
  than its own.
\<close>

theorem concurrent_stale_callers_both_write:
  assumes "fs p = Some (JsonText j0)" and "stale_at now j0"
    and "json_value d1 = Some v1" and "json_value d2 = Some v2"
  shows "(cache_step p now)\<^sup>*\<^sup>* (fs, started [d1, d2], [])
           (fs(p \<mapsto> JsonText v2), [(Returned v2, d1), (Returned v2, d2)], [v1, v2])"
proof -
  let ?fs1 = "fs(p \<mapsto> JsonText v1)" and ?fs2 = "fs(p \<mapsto> JsonText v2)"
  have 1: "cache_step p now (fs, started [d1, d2], []) (fs, [(Recomputing, d1), (Reading, d2)], [])"
    by (rule cache_step_read_stale_at [where i = 0 and j = j0]) (simp_all add: assms started_def)
  have 2: "cache_step p now (fs, [(Recomputing, d1), (Reading, d2)], [])
             (fs, [(Recomputing, d1), (Recomputing, d2)], [])"
    by (rule cache_step_read_stale_at [where i = 1 and j = j0]) (simp_all add: assms)
  have 3: "cache_step p now (fs, [(Recomputing, d1), (Recomputing, d2)], [])
             (?fs1, [(Rereading, d1), (Recomputing, d2)], [v1])"
    by (rule cache_step_write_at [where i = 0 and v = v1]) (simp_all add: assms)
  have 4: "cache_step p now (?fs1, [(Rereading, d1), (Recomputing, d2)], [v1])
             (?fs2, [(Rereading, d1), (Rereading, d2)], [v1, v2])"
    by (rule cache_step_write_at [where i = 1 and v = v2]) (simp_all add: assms)
  have 5: "cache_step p now (?fs2, [(Rereading, d1), (Rereading, d2)], [v1, v2])
             (?fs2, [(Returned v2, d1), (Rereading, d2)], [v1, v2])"
    by (rule cache_step_reread_at [where i = 0 and j = v2]) simp_all
  have 6: "cache_step p now (?fs2, [(Returned v2, d1), (Rereading, d2)], [v1, v2])
             (?fs2, [(Returned v2, d1), (Returned v2, d2)], [v1, v2])"
    by (rule cache_step_reread_at [where i = 1 and j = v2]) simp_all
  from 1 2 3 4 5 6 show ?thesis
    by (meson converse_rtranclp_into_rtranclp rtranclp.rtrancl_refl)
qed

theorem concurrent_stale_callers_both_write_witness:
  "(cache_step ''totd.json'' 200000)\<^sup>*\<^sup>*
     ([''totd.json'' \<mapsto> JsonText (Obj [(''endTimestamp'', Num (Fin 100))])],
      started [Obj [(''endTimestamp'', Num (Fin 300)), (''name'', Str ''A'')],
               Obj [(''endTimestamp'', Num (Fin 300)), (''name'', Str ''B'')]], [])
     ([''totd.json'' \<mapsto> JsonText (Obj [(''endTimestamp'', Num (Fin 100))])]
        (''totd.json'' \<mapsto> JsonText (Obj [(''endTimestamp'', Num (Fin 300)), (''name'', Str ''B'')])),
      [(Returned (Obj [(''endTimestamp'', Num (Fin 300)), (''name'', Str ''B'')]),
          Obj [(''endTimestamp'', Num (Fin 300)), (''name'', Str ''A'')]),
       (Returned (Obj [(''endTimestamp'', Num (Fin 300)), (''name'', Str ''B'')]),
          Obj [(''endTimestamp'', Num (Fin 300)), (''name'', Str ''B'')])],
      [Obj [(''endTimestamp'', Num (Fin 300)), (''name'', Str ''A'')],
       Obj [(''endTimestamp'', Num (Fin 300)), (''name'', Str ''B'')]])"
  by (rule concurrent_stale_callers_both_write) (simp add: stale_at_def now_seconds_def)+

text \<open>
  C25. Refinement: a call of \<open>getUpToDateTOTDInfo\<close> run alone, as the
  sequential definition computes it, is an execution of one task of the
  concurrent model from the same file to the same file and the same result,
  writing at most once, and then the record it returns.
\<close>

theorem getUpToDate_single_task_refinement:
  assumes "run_state (getUpToDateTOTDInfo p (Inr d)) w = (Inr r, w')"
  shows "\<exists>ws. (cache_step p (now_ms w))\<^sup>*\<^sup>* (files w, started [d], []) (files w', [(Returned r, d)], ws)
              \<and> (ws = [] \<or> ws = [r])"
  using assms
proof (cases rule: getUpToDate_Inr_cases)
  case (1 j e)
  then have fr: "fresh_at (now_ms w) j" by (simp add: fresh_at_def)
  have fw: "files w' = files w" using 1 by simp
  have "cache_step p (now_ms w) (files w, started [d], []) (files w, [(Returned r, d)], [])"
    using 1 fr by (intro cache_step_read_fresh_at [where i = 0 and j = j]) (simp_all add: started_def)
  then show ?thesis unfolding fw by blast
next
  case (2 j d')
  let ?fs = "(files w)(p \<mapsto> JsonText r)"
  have a: "cache_step p (now_ms w) (files w, started [d], []) (files w, [(Recomputing, d)], [])"
    using 2 by (intro cache_step_read_stale_at [where i = 0 and j = j]) (simp_all add: started_def)
  have b: "cache_step p (now_ms w) (files w, [(Recomputing, d)], []) (?fs, [(Rereading, d)], [r])"
    using 2 by (intro cache_step_write_at [where i = 0 and v = r]) simp_all
  have c: "cache_step p (now_ms w) (?fs, [(Rereading, d)], [r]) (?fs, [(Returned r, d)], [r])"
    by (intro cache_step_reread_at [where i = 0 and j = r]) simp_all
  have fw: "files w' = ?fs" using 2 by simp
  from a b c have "(cache_step p (now_ms w))\<^sup>*\<^sup>* (files w, started [d], [])
                     (?fs, [(Returned r, d)], [r])"
    by (meson converse_rtranclp_into_rtranclp rtranclp.rtrancl_refl)
  then show ?thesis unfolding fw by blast
qed

theorem getUpToDate_single_task_refinement_witness:
  "run_state (getUpToDateTOTDInfo ''totd.json'' (Inr (Obj [(''endTimestamp'', Num (Fin 300))])))
      \<lparr>files = [''totd.json'' \<mapsto> JsonText (Obj [(''endTimestamp'', Num (Fin 100))])],
       now_ms = 200000, trace = []\<rparr> =
     (Inr (Obj [(''endTimestamp'', Num (Fin 300))]),
      \<lparr>files = [''totd.json'' \<mapsto> JsonText (Obj [(''endTimestamp'', Num (Fin 300))])],
       now_ms = 200000,
       trace = [ReadFile ''totd.json'', WriteFile ''totd.json'' (Obj [(''endTimestamp'', Num (Fin 300))]),
                ReadFile ''totd.json'']\<rparr>)
   \<and> (\<exists>ws. (cache_step ''totd.json'' 200000)\<^sup>*\<^sup>*
          ([''totd.json'' \<mapsto> JsonText (Obj [(''endTimestamp'', Num (Fin 100))])],
           started [Obj [(''endTimestamp'', Num (Fin 300))]], [])
          ([''totd.json'' \<mapsto> JsonText (Obj [(''endTimestamp'', Num (Fin 300))])],
           [(Returned (Obj [(''endTimestamp'', Num (Fin 300))]), Obj [(''endTimestamp'', Num (Fin 300))])],
           ws)
        \<and> (ws = [] \<or> ws = [Obj [(''endTimestamp'', Num (Fin 300))]]))"
proof -
  have run: "run_state (getUpToDateTOTDInfo ''totd.json'' (Inr (Obj [(''endTimestamp'', Num (Fin 300))])))
      \<lparr>files = [''totd.json'' \<mapsto> JsonText (Obj [(''endTimestamp'', Num (Fin 100))])],
       now_ms = 200000, trace = []\<rparr> =
     (Inr (Obj [(''endTimestamp'', Num (Fin 300))]),
      \<lparr>files = [''totd.json'' \<mapsto> JsonText (Obj [(''endTimestamp'', Num (Fin 300))])],
       now_ms = 200000,
       trace = [ReadFile ''totd.json'', WriteFile ''totd.json'' (Obj [(''endTimestamp'', Num (Fin 300))]),
                ReadFile ''totd.json'']\<rparr>)"
    by (subst getUpToDate_stale_Inr) (simp add: stale_at_def now_seconds_def)+
  show ?thesis using getUpToDate_single_task_refinement [OF run] run by simp
qed

end
