(* ===== verification/Spec2Isabelle.thy ===== *)
theory Spec2Isabelle
  imports Scheduler Cache_Race
begin

text \<open>
  \<^bold>\<open>A verification development of trackmania-bot.\<close>

  \<^bold>\<open>The program.\<close> A Discord bot in three modules. \<open>src/app.js\<close> holds the
  Express route \<open>POST /interactions\<close>, the track-of-the-day cache
  (\<open>getUpToDateTOTDInfo\<close> on \<open>totd.json\<close>), the error reporter
  (\<open>embeddedErrorMessage\<close>), the daily scheduled job (\<open>daily_totd\<close>) and two
  start-up actions (a MongoDB ping and one cache refresh). \<open>src/utils.js\<close> holds the
  Discord REST client \<open>DiscordRequest\<close> and \<open>InstallGlobalCommands\<close>.
  \<open>src/commands.js\<close> registers the slash commands. The route answers a PING with
  PONG. A slash command (\<open>test\<close>, \<open>tucker\<close>, \<open>totd\<close>) or a button click (a
  \<open>custom_id\<close> of \<open>;\<close>-separated fields) is acknowledged first; the follow-up
  work is calls to the data provider (\<open>trackmania.js\<close>, not part of the
  repository) and PATCHes of the answer, with failures reported by
  \<open>embeddedErrorMessage\<close>.

  \<^bold>\<open>How the code is modelled.\<close> Shallow embedding. An async function is a
  computation of type \<open>'a io\<close> (theory \<open>World\<close>): a state monad over the world
  (the files on disk, the clock, and the trace of external effects in order)
  whose result is \<open>jserror + 'a\<close>, \<open>Inl\<close> a rejection. \<open>await\<close>, \<open>.catch\<close>,
  calling an async function without awaiting it (\<open>fire_and_forget\<close>), and a
  promise created eagerly and maybe never awaited (\<open>start_call\<close>, \<open>forsake\<close>) are
  combinators. A rejection nothing handles becomes the effect \<open>Unhandled\<close>.
  Discord, the data provider and the time zone are fields of the environment
  record \<open>env\<close>; the claims quantify over them. The theories, in import order:
  \<^item> \<open>Prelude\<close>: named collections, \<open>nth_opt\<close>.
  \<^item> \<open>Js_Values\<close>: JavaScript values and the language operations the code relies
    on (\<open>String.prototype.split\<close>, ToNumber of strings, ToBoolean, \<open><\<close> and
    \<open>-\<close> on numbers, property reads with their \<open>TypeError\<close>,
    \<open>JSON.parse(JSON.stringify(v))\<close>). Numbers are rationals with NaN and
    the infinities; rounding of binary floating point is not modelled.
  \<^item> \<open>World\<close>: effects, world, the combinators and their run equations, and
    \<open>only_emits\<close>, an effect discipline that composes along the combinators.
  \<^item> \<open>Discord\<close>: \<open>DiscordRequest\<close>, \<open>InstallGlobalCommands\<close> and the command
    registry of \<open>commands.js\<close>.
  \<^item> \<open>Error_Responder\<close>: \<open>embeddedErrorMessage\<close>.
  \<^item> \<open>Custom_Id\<close>: decoding of \<open>custom_id\<close> (\<open>split(';')\<close> and the if-chain on
    \<open>args[0]\<close>), with an encoder for the formats the specification names.
  \<^item> \<open>Pagination\<close>: the leaderboard argument list (\<open>lb_f\<close>, \<open>lb_l\<close>, \<open>lb_p\<close>).
  \<^item> \<open>Cache\<close>: \<open>getUpToDateTOTDInfo\<close> with \<open>fs.promises\<close> as reads and writes of
    the file map.
  \<^item> \<open>Dates\<close>: \<open>new Date(y, m, d)\<close> and date comparison, with the time zone a
    fixed offset (no daylight saving).
  \<^item> \<open>Router\<close>: the route, one definition per branch of the handler, in the
    order of the code.
  \<^item> \<open>Scheduler\<close>: the cron rule \<open>0 13 * * *\<close> with the next-invocation
    computation of \<open>node-schedule\<close>, the job \<open>daily_totd\<close>, and a run of the timer.
  \<^item> \<open>Cache_Race\<close>: concurrent calls of \<open>getUpToDateTOTDInfo\<close>. This is an
    inductive step relation in which any number of calls interleave at their
    \<open>await\<close>s on the shared file.
  Each operation's rejection paths are branches of its definition: the unguarded
  \<open>options[0]\<close>, the thrown \<open>Error\<close> of \<open>DiscordRequest\<close>, the \<open>JSON.parse\<close>
  error of the cache read.

  \<^bold>\<open>What is proved.\<close>
  \<^item> Response discipline (C1). Every request is answered at most once, and
    before any other effect. This is proved over all environments by the
    \<open>acks_first\<close> rules.
  \<^item> The cache (C2, C5, C6, C11, C20). The returned record is fresh. A second
    call makes one read and no write. The provider call is started eagerly: it
    is unhandled when it fails and the record is fresh, and it is issued even
    when the record is fresh. C5 is the full stale-cache scenario.
  \<^item> Concurrent cache users (C23 to C25). C23: freshness of what every caller
    returns, under every interleaving. C24: the race the specification names;
    both callers write, and one of them returns the other's record. C25: the
    sequential definition refines one task of the step relation.
  \<^item> The \<open>totd past\<close> date handling (C3, C4, C8). The date is clamped to now. An
    early date is reported and then fetched anyway. Missing options give a
    \<open>TypeError\<close>.
  \<^item> The \<open>custom_id\<close> codec round trip (C7). The leaderboard pages (C9, C10,
    C26). The component branches (C14, C16, C19, C27).
  \<^item> The commands and the REST client (C12, C13, C17, C28, C29). The registry
    against the router (C15). The dead PING branch (C18).
  \<^item> The scheduler (C21, C22). The rule fires at 13:00 local time once a day.
    The job posts the provider's raw output without touching the cache.
  Every claim with hypotheses has a witness that runs it on a concrete input.

  \<^bold>\<open>Bounds and fuel.\<close> No loop of the program is unbounded. Recursion is
  structural (over strings, lists, JSON values, the number of timer firings), so
  no fuel is needed. The timer's run takes the number of firings as its argument,
  since the process is meant to run forever.

  \<^bold>\<open>Assumptions of the model.\<close>
  \<^item> The request body always carries an integer \<open>type\<close>, and \<open>data\<close> and
    \<open>message\<close> are present where the branch reads them. A body without \<open>type\<close>
    would match the dead test \<open>undefined === InteractionResponseType.PING\<close> and
    get a PONG.
  \<^item> \<open>embeddedErrorMessage\<close> logs \<open>err.stack\<close> first. The model drops the log;
    every error of the model is an object, so the read cannot fail.
  \<^item> Time does not pass within one request, and the local time zone is a fixed
    offset from UTC.
  \<^item> A rejected promise is recorded as \<open>Unhandled\<close> where the code never attaches
    a handler to it. On the stale-cache path the provider's promise is awaited
    only after the file read. Whether Node reports it unhandled in between
    depends on timing that is not modelled; the model counts it as handled.
  \<^item> File writes are atomic. A real \<open>writeFile\<close> truncates and then writes, so
    a read that overlaps it fails in \<open>JSON.parse\<close>. The claims about what is
    returned speak of the calls that do return.

  \<^bold>\<open>Not modelled.\<close>
  \<^item> The data provider \<open>trackmania.js\<close> is absent from the repository. It is an
    oracle (\<open>provider\<close>) answering each call, independent of the time and of
    earlier calls.
  \<^item> Embed building is inside the provider (\<open>embedTrackInfo\<close>) or constant (the
    test embed and the error embed, as their fields).
  \<^item> Express, signature verification and the HTTP transport are not modelled,
    apart from \<open>verifyKeyMiddleware\<close> answering PING. \<open>discord\<close> maps a request
    to a reply.
  \<^item> The MongoDB ping \<open>run()\<close> and the start-up refresh of line 61 are not
    modelled. The ping's failure is only logged. The refresh is awaited at the
    top level, so its failure (for instance a missing \<open>totd.json\<close>) stops the
    module before the server starts; this start-up path is outside the model.
  \<^item> Logging (\<open>console.log\<close>) is not modelled.

  \<^bold>\<open>Left for later.\<close>
  \<^item> Calendar correctness of \<open>days_from_civil\<close> against a reference count of
    days, and from it the exact set of dates the \<open>totd past\<close> check rejects.
  \<^item> Concurrent interactions beyond the cache file: interleaving whole handlers.
\<close>

section \<open>End-to-end scenarios\<close>

text \<open>
  C5. The specification's stale-cache scenario: a \<open>totd\<close> command for today
  while \<open>totd.json\<close> holds a stale record sends the deferred acknowledgement,
  calls the data provider once for the track of the day, reads the file, rewrites
  it once with the new record, reads it back, has the record embedded, and sends
  exactly one PATCH with the embed, in this order.
\<close>

theorem totd_today_stale_cache_scenario:
  assumes "itype i = 2" and "data_name i = ''totd''"
    and "data_options i = Some (CmdOption n v subs # others)" and "n \<noteq> ''past''"
    and "files w totdfile = Some (JsonText j)" and "stale_at (now_ms w) j"
    and "provider E (TrackOfTheDay Today) = Inr d" and "json_value d = Some d'"
    and "provider E (EmbedTrackInfo d') = Inr b"
    and "http_ok (discord E PATCH (discord_api_base @ command_endpoint E i) (request_body b))"
  shows "run_state (post_interactions E i) w =
    (Inr (), w\<lparr>files := (files w)(totdfile \<mapsto> JsonText d'),
       trace := trace w @ [Respond DeferredChannelMessage, Api (TrackOfTheDay Today),
                           ReadFile totdfile, WriteFile totdfile d', ReadFile totdfile,
                           Api (EmbedTrackInfo d'),
                           Http PATCH (discord_api_base @ command_endpoint E i) (request_body b)]\<rparr>)"
  using assms by (simp add: handler_unfold getUpToDate_stale_Inr)

theorem totd_today_stale_cache_scenario_witness:
  "run_state (post_interactions
      \<lparr>provider = (\<lambda>c. case c of
                     TrackOfTheDay _ \<Rightarrow> Inr (Obj [(''endTimestamp'', Num (Fin 1700086400))])
                   | _ \<Rightarrow> Inr (Str ''embed'')),
       discord = (\<lambda>m u b. Reply 204 None), app_id = ''A'', utc_offset = 0\<rparr>
      (command_request ''totd'' (Some [CmdOption ''today'' Undefined None])))
      \<lparr>files = [totdfile \<mapsto> JsonText (Obj [(''endTimestamp'', Num (Fin 1699999000))])],
       now_ms = 1700000000000, trace = []\<rparr> =
    (Inr (), \<lparr>files = [totdfile \<mapsto> JsonText (Obj [(''endTimestamp'', Num (Fin 1699999000))])],
                now_ms = 1700000000000, trace = []\<rparr>\<lparr>
       files := (files \<lparr>files = [totdfile \<mapsto> JsonText (Obj [(''endTimestamp'', Num (Fin 1699999000))])],
                        now_ms = 1700000000000, trace = []\<rparr>)
                  (totdfile \<mapsto> JsonText (Obj [(''endTimestamp'', Num (Fin 1700086400))])),
       trace := trace \<lparr>files = [totdfile \<mapsto> JsonText (Obj [(''endTimestamp'', Num (Fin 1699999000))])],
                        now_ms = 1700000000000, trace = []\<rparr> @
         [Respond DeferredChannelMessage, Api (TrackOfTheDay Today),
          ReadFile totdfile, WriteFile totdfile (Obj [(''endTimestamp'', Num (Fin 1700086400))]),
          ReadFile totdfile,
          Api (EmbedTrackInfo (Obj [(''endTimestamp'', Num (Fin 1700086400))])),
          Http PATCH (discord_api_base @ command_endpoint
              \<lparr>provider = (\<lambda>c. case c of
                     TrackOfTheDay _ \<Rightarrow> Inr (Obj [(''endTimestamp'', Num (Fin 1700086400))])
                   | _ \<Rightarrow> Inr (Str ''embed'')),
               discord = (\<lambda>m u b. Reply 204 None), app_id = ''A'', utc_offset = 0\<rparr>
              (command_request ''totd'' (Some [CmdOption ''today'' Undefined None])))
            (request_body (Str ''embed''))]\<rparr>)"
  by (rule totd_today_stale_cache_scenario)
     (simp add: stale_at_def now_seconds_def http_ok_def)+

text \<open>
  C15. Of the commands \<open>commands.js\<close> registers (\<open>test\<close>, \<open>leaderboard\<close>,
  \<open>cotd\<close>), the handler ignores \<open>leaderboard\<close> and \<open>cotd\<close>: such an
  interaction gets no response and causes no effect at all, so Discord shows it
  as failed. Conversely the two commands the handler implements besides
  \<open>test\<close>, \<open>totd\<close> and \<open>tucker\<close>, are not registered.
\<close>

theorem registered_commands_ignored:
  assumes "itype i = 2"
  shows "[c \<leftarrow> ALL_COMMANDS. run_state (post_interactions E (i\<lparr>data_name := name c\<rparr>)) w = (Inr (), w)]
           = [LEADERBOARD_COMMAND, CUP_OF_THE_DAY_COMMAND]
         \<and> ''totd'' \<notin> set (map name ALL_COMMANDS) \<and> ''tucker'' \<notin> set (map name ALL_COMMANDS)"
  using assms by (simp add: registered_command_names ALL_COMMANDS_def TEST_COMMAND_def
      LEADERBOARD_COMMAND_def CUP_OF_THE_DAY_COMMAND_def handler_unfold split: sum.split prod.split)

theorem registered_commands_ignored_witness:
  "[c \<leftarrow> ALL_COMMANDS. run_state (post_interactions sample_env
       ((command_request [] None)\<lparr>data_name := name c\<rparr>)) sample_world = (Inr (), sample_world)]
     = [LEADERBOARD_COMMAND, CUP_OF_THE_DAY_COMMAND]
   \<and> ''totd'' \<notin> set (map name ALL_COMMANDS) \<and> ''tucker'' \<notin> set (map name ALL_COMMANDS)"
  by (rule registered_commands_ignored) simp

text \<open>
  C20. The specification's cache contract calls the recompute function only when
  the record is stale; the code passes \<open>trackmania.trackOfTheDay(...)\<close> as an
  already started promise, so a \<open>totd\<close> for today calls the data provider before
  the file is even read, also when the cached record is fresh. The file is then
  read, not written, and the cached record is what gets embedded.
\<close>

theorem totd_today_fresh_cache_still_fetches:
  assumes "itype i = 2" and "data_name i = ''totd''"
    and "data_options i = Some (CmdOption n v subs # others)" and "n \<noteq> ''past''"
    and "files w totdfile = Some (JsonText j)" and "fresh_at (now_ms w) j"
    and "provider E (TrackOfTheDay Today) = Inr d"
  shows "\<exists>ys. snd (run_state (post_interactions E i) w) =
           w\<lparr>trace := trace w @ [Respond DeferredChannelMessage, Api (TrackOfTheDay Today),
                                ReadFile totdfile, Api (EmbedTrackInfo j)] @ ys\<rparr>"
proof -
  from assms(6) obtain e where "get_property j ''endTimestamp'' = Inr e"
      "\<not> num_less (to_number e) (now_seconds (now_ms w))"
    by (rule fresh_atE)
  with assms show ?thesis
    by (auto simp: handler_unfold getUpToDate_not_stale unhandled_of_def split: sum.split prod.split)
qed

theorem totd_today_fresh_cache_still_fetches_witness:
  "\<exists>ys. snd (run_state (post_interactions sample_env
            (command_request ''totd'' (Some [CmdOption ''today'' Undefined None])))
          \<lparr>files = [totdfile \<mapsto> JsonText (Obj [(''endTimestamp'', Num (Fin 1700086400))])],
           now_ms = 1700000000000, trace = []\<rparr>) =
     \<lparr>files = [totdfile \<mapsto> JsonText (Obj [(''endTimestamp'', Num (Fin 1700086400))])],
      now_ms = 1700000000000, trace = []\<rparr>\<lparr>trace :=
        trace \<lparr>files = [totdfile \<mapsto> JsonText (Obj [(''endTimestamp'', Num (Fin 1700086400))])],
               now_ms = 1700000000000, trace = []\<rparr> @
        [Respond DeferredChannelMessage, Api (TrackOfTheDay Today), ReadFile totdfile,
         Api (EmbedTrackInfo (Obj [(''endTimestamp'', Num (Fin 1700086400))]))] @ ys\<rparr>"
  by (rule totd_today_fresh_cache_still_fetches)
     (simp add: fresh_at_def now_seconds_def)+

end
